theory Spec2Isabelle
  imports Main "HOL-Library.AList"
begin

text \<open>
  A shallow embedding of \<^verbatim>\<open>aspects/schema.go\<close>: the schema compiler
  \<^verbatim>\<open>ParseSchema\<close> and the validators of the eight node kinds.

  The Go code works on raw JSON bytes and decodes them with \<^verbatim>\<open>encoding/json\<close>.
  The first sections model that library: a scanner from bytes to a syntax tree whose nodes
  remember their exact source bytes (what a \<^verbatim>\<open>json.RawMessage\<close> holds), and the
  decoding of such a tree into each Go target type the code uses.
\<close>

section \<open>The JSON scanner\<close>

definition isSpace :: "char \<Rightarrow> bool" where
  "isSpace c \<longleftrightarrow> c = CHR '' '' \<or> c = CHR 0x09 \<or> c = CHR 0x0D \<or> c = CHR 0x0A"

definition isDigit :: "char \<Rightarrow> bool" where
  "isDigit c \<longleftrightarrow> (48::nat) \<le> of_char c \<and> of_char c \<le> (57::nat)"

definition skipSpace :: "string \<Rightarrow> string" where
  "skipSpace s = dropWhile isSpace s"

definition hexVal :: "char \<Rightarrow> nat option" where
  "hexVal c = (let n = (of_char c :: nat) in
     if 48 \<le> n \<and> n \<le> 57 then Some (n - 48)
     else if 97 \<le> n \<and> n \<le> 102 then Some (n - 87)
     else if 65 \<le> n \<and> n \<le> 70 then Some (n - 55)
     else None)"

definition getu4 :: "string \<Rightarrow> nat option" where
  "getu4 s = (case s of
      b # u # h1 # h2 # h3 # h4 # _ \<Rightarrow>
        if b = CHR 0x5C \<and> u = CHR ''u'' then
          (case (hexVal h1, hexVal h2, hexVal h3, hexVal h4) of
             (Some a, Some b, Some c, Some d) \<Rightarrow> Some (((a * 16 + b) * 16 + c) * 16 + d)
           | _ \<Rightarrow> None)
        else None
    | _ \<Rightarrow> None)"

definition simpleEscape :: "char \<Rightarrow> char option" where
  "simpleEscape e =
     (if e = CHR 0x22 \<or> e = CHR 0x5C \<or> e = CHR ''/'' then Some e
      else if e = CHR ''b'' then Some (CHR 0x08)
      else if e = CHR ''f'' then Some (CHR 0x0C)
      else if e = CHR ''n'' then Some (CHR 0x0A)
      else if e = CHR ''r'' then Some (CHR 0x0D)
      else if e = CHR ''t'' then Some (CHR 0x09)
      else None)"

text \<open>The scanner's view of a string literal: the bytes after the opening quote
  up to and including the closing quote, and what follows.\<close>

fun scanString :: "string \<Rightarrow> (string \<times> string) option" where
  "scanString [] = None"
| "scanString (c # cs) =
     (if c = CHR 0x22 then Some ([c], cs)
      else if c = CHR 0x5C then
        (case cs of
           [] \<Rightarrow> None
         | e # cs' \<Rightarrow>
             if e = CHR ''u'' then
               (case getu4 (c # cs) of
                  None \<Rightarrow> None
                | Some _ \<Rightarrow> map_option (\<lambda>(r, rest). (take 6 (c # cs) @ r, rest)) (scanString (drop 4 cs')))
             else (case simpleEscape e of
                  None \<Rightarrow> None
                | Some _ \<Rightarrow> map_option (\<lambda>(r, rest). (c # e # r, rest)) (scanString cs')))
      else if (of_char c :: nat) < 32 then None
      else map_option (\<lambda>(r, rest). (c # r, rest)) (scanString cs))"


subsection \<open>Decoding string literals\<close>

definition utf8enc :: "nat \<Rightarrow> string" where
  "utf8enc r =
     (if r < 0x80 then [char_of r]
      else if r < 0x800 then [char_of (0xC0 + r div 64), char_of (0x80 + r mod 64)]
      else if 0xD800 \<le> r \<and> r \<le> 0xDFFF then [CHR 0xEF, CHR 0xBF, CHR 0xBD]
      else if r < 0x10000 then
        [char_of (0xE0 + r div 4096), char_of (0x80 + (r div 64) mod 64), char_of (0x80 + r mod 64)]
      else
        [char_of (0xF0 + r div 262144), char_of (0x80 + (r div 4096) mod 64),
         char_of (0x80 + (r div 64) mod 64), char_of (0x80 + r mod 64)])"

definition isCont :: "char \<Rightarrow> bool" where
  "isCont c \<longleftrightarrow> (0x80::nat) \<le> of_char c \<and> of_char c \<le> (0xBF::nat)"

text \<open>Width of the well-formed UTF-8 sequence at the head of the input, 0 when the
  first byte does not start one (\<open>utf8.DecodeRune\<close> then yields the replacement rune
  and width 1).\<close>

definition utf8width :: "string \<Rightarrow> nat" where
  "utf8width s = (case s of
      [] \<Rightarrow> 0
    | c0 # r0 \<Rightarrow>
       (let b0 = (of_char c0 :: nat) in
        if 0xC2 \<le> b0 \<and> b0 \<le> 0xDF then
          (case r0 of c1 # _ \<Rightarrow> if isCont c1 then 2 else 0 | _ \<Rightarrow> 0)
        else if 0xE0 \<le> b0 \<and> b0 \<le> 0xEF then
          (case r0 of c1 # c2 # _ \<Rightarrow>
             (let b1 = (of_char c1 :: nat) in
              if (if b0 = 0xE0 then 0xA0 else 0x80) \<le> b1
                 \<and> b1 \<le> (if b0 = 0xED then 0x9F else 0xBF) \<and> isCont c2
              then 3 else 0)
           | _ \<Rightarrow> 0)
        else if 0xF0 \<le> b0 \<and> b0 \<le> 0xF4 then
          (case r0 of c1 # c2 # c3 # _ \<Rightarrow>
             (let b1 = (of_char c1 :: nat) in
              if (if b0 = 0xF0 then 0x90 else 0x80) \<le> b1
                 \<and> b1 \<le> (if b0 = 0xF4 then 0x8F else 0xBF) \<and> isCont c2 \<and> isCont c3
              then 4 else 0)
           | _ \<Rightarrow> 0)
        else 0))"

text \<open>\<open>unquote\<close>: the decoded contents of a string literal's body (the bytes between
  the quotes, already accepted by the scanner).\<close>

function unquote :: "string \<Rightarrow> string" where
  "unquote [] = []"
| "unquote (c # cs) =
     (if c = CHR 0x5C then
        (case cs of
           [] \<Rightarrow> []
         | e # cs' \<Rightarrow>
            if e = CHR ''u'' then
              (case getu4 (c # cs) of
                 None \<Rightarrow> []
               | Some rr \<Rightarrow>
                  if 0xD800 \<le> rr \<and> rr \<le> 0xDFFF then
                    (case getu4 (drop 4 cs') of
                       Some rr1 \<Rightarrow>
                         if rr \<le> 0xDBFF \<and> 0xDC00 \<le> rr1 \<and> rr1 \<le> 0xDFFF
                         then utf8enc (0x10000 + (rr - 0xD800) * 1024 + (rr1 - 0xDC00))
                                @ unquote (drop 10 cs')
                         else utf8enc 0xFFFD @ unquote (drop 4 cs')
                     | None \<Rightarrow> utf8enc 0xFFFD @ unquote (drop 4 cs'))
                  else utf8enc rr @ unquote (drop 4 cs'))
            else (case simpleEscape e of
                    None \<Rightarrow> []
                  | Some d \<Rightarrow> d # unquote cs'))
      else if (of_char c :: nat) < 0x80 then c # unquote cs
      else (let w = utf8width (c # cs) in
            if w = 0 then utf8enc 0xFFFD @ unquote cs
            else take w (c # cs) @ unquote (drop (w - 1) cs)))"
  by pat_completeness auto
termination
  by (relation "measure length") auto

subsection \<open>Numbers\<close>

definition scanDigits :: "string \<Rightarrow> (string \<times> string) option" where
  "scanDigits s = (if takeWhile isDigit s = [] then None
                   else Some (takeWhile isDigit s, dropWhile isDigit s))"

definition scanInt :: "string \<Rightarrow> (string \<times> string) option" where
  "scanInt s = (case s of
      [] \<Rightarrow> None
    | c # cs \<Rightarrow> if c = CHR ''0'' then Some ([c], cs) else scanDigits s)"

definition scanFrac :: "string \<Rightarrow> (string \<times> string) option" where
  "scanFrac s = (case s of
      [] \<Rightarrow> Some ([], s)
    | c # cs \<Rightarrow>
        if c = CHR ''.'' then map_option (\<lambda>(ds, rest). (c # ds, rest)) (scanDigits cs)
        else Some ([], s))"

definition scanExp :: "string \<Rightarrow> (string \<times> string) option" where
  "scanExp s = (case s of
      [] \<Rightarrow> Some ([], s)
    | c # cs \<Rightarrow>
        if c = CHR ''e'' \<or> c = CHR ''E'' then
          (case cs of
             [] \<Rightarrow> None
           | g # cs' \<Rightarrow>
               if g = CHR ''+'' \<or> g = CHR ''-''
               then map_option (\<lambda>(ds, rest). (c # g # ds, rest)) (scanDigits cs')
               else map_option (\<lambda>(ds, rest). (c # ds, rest)) (scanDigits cs))
        else Some ([], s))"

definition scanNumber :: "string \<Rightarrow> (string \<times> string) option" where
  "scanNumber s =
     (let (sign, s0) = (case s of c # cs \<Rightarrow> if c = CHR ''-'' then ([c], cs) else ([], s) | [] \<Rightarrow> ([], s))
      in case scanInt s0 of
           None \<Rightarrow> None
         | Some (ip, s1) \<Rightarrow>
            (case scanFrac s1 of
               None \<Rightarrow> None
             | Some (fp, s2) \<Rightarrow>
                (case scanExp s2 of
                   None \<Rightarrow> None
                 | Some (ep, s3) \<Rightarrow> Some (sign @ ip @ fp @ ep, s3))))"

subsection \<open>Values\<close>

datatype jtree =
    JNull
  | JBool bool
  | JNumber string
  | JString string string
  | JArray string "jtree list"
  | JObject string "(string \<times> jtree) list"

fun rawBytes :: "jtree \<Rightarrow> string" where
  "rawBytes JNull = ''null''"
| "rawBytes (JBool b) = (if b then ''true'' else ''false'')"
| "rawBytes (JNumber lit) = lit"
| "rawBytes (JString bs s) = bs"
| "rawBytes (JArray bs xs) = bs"
| "rawBytes (JObject bs kvs) = bs"

definition maxNestingDepth :: nat where
  "maxNestingDepth = 10000"

definition consumed :: "string \<Rightarrow> string \<Rightarrow> string" where
  "consumed s rest = take (length s - length rest) s"

lemma dropWhile_Cons_length: "dropWhile P xs = y # ys \<Longrightarrow> length ys < length xs"
  using length_dropWhile_le [of P xs] by simp

function scanValue :: "nat \<Rightarrow> string \<Rightarrow> (jtree \<times> string) option"
  and scanElems :: "nat \<Rightarrow> string \<Rightarrow> (jtree list \<times> string) option"
  and scanMembers :: "nat \<Rightarrow> string \<Rightarrow> ((string \<times> jtree) list \<times> string) option"
where
  "scanValue d s =
     (case s of
        [] \<Rightarrow> None
      | c # cs \<Rightarrow>
         if c = CHR ''{'' then
           (if maxNestingDepth < d + 1 then None
            else (case skipSpace cs of
                    [] \<Rightarrow> None
                  | c' # cs' \<Rightarrow>
                     if c' = CHR ''}'' then Some (JObject (consumed s cs') [], cs')
                     else (case scanMembers (d + 1) (c' # cs') of
                             None \<Rightarrow> None
                           | Some (kvs, rest) \<Rightarrow> Some (JObject (consumed s rest) kvs, rest))))
         else if c = CHR ''['' then
           (if maxNestingDepth < d + 1 then None
            else (case skipSpace cs of
                    [] \<Rightarrow> None
                  | c' # cs' \<Rightarrow>
                     if c' = CHR '']'' then Some (JArray (consumed s cs') [], cs')
                     else (case scanElems (d + 1) (c' # cs') of
                             None \<Rightarrow> None
                           | Some (xs, rest) \<Rightarrow> Some (JArray (consumed s rest) xs, rest))))
         else if c = CHR 0x22 then
           (case scanString cs of
              None \<Rightarrow> None
            | Some (body, rest) \<Rightarrow> Some (JString (c # body) (unquote (butlast body)), rest))
         else if take 4 s = ''true'' then Some (JBool True, drop 4 s)
         else if take 5 s = ''false'' then Some (JBool False, drop 5 s)
         else if take 4 s = ''null'' then Some (JNull, drop 4 s)
         else (case scanNumber s of
                 None \<Rightarrow> None
               | Some (lit, rest) \<Rightarrow> Some (JNumber lit, rest)))"
| "scanElems d s =
     (case scanValue d s of
        None \<Rightarrow> None
      | Some (x, rest) \<Rightarrow>
         (case skipSpace rest of
            [] \<Rightarrow> None
          | c # cs \<Rightarrow>
             if c = CHR '']'' then Some ([x], cs)
             else if c = CHR '','' \<and> length (skipSpace cs) < length s then
               (case scanElems d (skipSpace cs) of
                  None \<Rightarrow> None
                | Some (xs, rest') \<Rightarrow> Some (x # xs, rest'))
             else None))"
| "scanMembers d s =
     (case s of
        [] \<Rightarrow> None
      | q # s1 \<Rightarrow>
         if q \<noteq> CHR 0x22 then None
         else (case scanString s1 of
                 None \<Rightarrow> None
               | Some (body, s2) \<Rightarrow>
                  (case skipSpace s2 of
                     [] \<Rightarrow> None
                   | c # s3 \<Rightarrow>
                      if c \<noteq> CHR '':'' \<or> \<not> length (skipSpace s3) < length s then None
                      else (case scanValue d (skipSpace s3) of
                              None \<Rightarrow> None
                            | Some (v, rest) \<Rightarrow>
                               (case skipSpace rest of
                                  [] \<Rightarrow> None
                                | c' # cs \<Rightarrow>
                                   if c' = CHR ''}'' then Some ([(unquote (butlast body), v)], cs)
                                   else if c' = CHR '','' \<and> length (skipSpace cs) < length s then
                                     (case scanMembers d (skipSpace cs) of
                                        None \<Rightarrow> None
                                      | Some (kvs, rest') \<Rightarrow>
                                          Some ((unquote (butlast body), v) # kvs, rest'))
                                   else None)))))"
  by pat_completeness auto
termination
  apply (relation "measures [\<lambda>x. case x of Inl (d, s) \<Rightarrow> length s | Inr (Inl (d, s)) \<Rightarrow> length s | Inr (Inr (d, s)) \<Rightarrow> length s,
                             \<lambda>x. case x of Inl _ \<Rightarrow> 0 | Inr _ \<Rightarrow> 1]")
  apply (auto simp: skipSpace_def dest: dropWhile_Cons_length)
  done

definition decode :: "string \<Rightarrow> jtree option" where
  "decode s = (case scanValue 0 (skipSpace s) of
      None \<Rightarrow> None
    | Some (t, rest) \<Rightarrow> if skipSpace rest = [] then Some t else None)"


section \<open>Decoding into Go values\<close>

text \<open>
  \<^verbatim>\<open>json.Unmarshal\<close> fails either with a syntax error (only on bytes that are not
  JSON: a \<^verbatim>\<open>json.RawMessage\<close> taken out of a decoded document is always valid) or with
  an \<^verbatim>\<open>UnmarshalTypeError\<close> whose \<^verbatim>\<open>Value\<close> describes the JSON value
  that did not fit the target. Errors built by \<^verbatim>\<open>fmt.Errorf\<close> are kept as the format
  string with its arguments.
\<close>

datatype pathElem = Key string | Idx nat

datatype error =
    ValidationError (Path: "pathElem list") (Err: error)
  | Errorf string "fmtArg list"
  | SyntaxError
  | UnmarshalTypeError string
  | RegexpError string
  | NilDereference
and fmtArg = S string | E error

fun isUnmarshalTypeError :: "error \<Rightarrow> bool" where
  "isUnmarshalTypeError (UnmarshalTypeError v) = True"
| "isUnmarshalTypeError _ = False"

text \<open>A \<^verbatim>\<open>map[string]json.RawMessage\<close>: an association list with distinct keys.
  Go's \<^verbatim>\<open>nil\<close> map is \<open>None\<close> where the code can tell it from an empty one.\<close>

type_synonym gomap = "(string \<times> jtree) list"

fun jsonKind :: "jtree \<Rightarrow> string" where
  "jsonKind JNull = ''null''"
| "jsonKind (JBool b) = ''bool''"
| "jsonKind (JNumber lit) = ''number''"
| "jsonKind (JString bs s) = ''string''"
| "jsonKind (JArray bs xs) = ''array''"
| "jsonKind (JObject bs kvs) = ''object''"

definition toMap :: "(string \<times> jtree) list \<Rightarrow> gomap" where
  "toMap kvs = foldl (\<lambda>m (k, v). AList.update k v m) [] kvs"

fun unmarshalMap :: "jtree \<Rightarrow> error + gomap option" where
  "unmarshalMap (JObject bs kvs) = Inr (Some (toMap kvs))"
| "unmarshalMap JNull = Inr None"
| "unmarshalMap t = Inl (UnmarshalTypeError (jsonKind t))"

definition orEmpty :: "gomap option \<Rightarrow> gomap" where
  "orEmpty m = (case m of None \<Rightarrow> [] | Some kvs \<Rightarrow> kvs)"

text \<open>Into a \<^verbatim>\<open>string\<close> variable holding \<^verbatim>\<open>""\<close>: \<^verbatim>\<open>null\<close> leaves it unchanged.\<close>

fun unmarshalString :: "jtree \<Rightarrow> error + string" where
  "unmarshalString (JString bs s) = Inr s"
| "unmarshalString JNull = Inr []"
| "unmarshalString t = Inl (UnmarshalTypeError (jsonKind t))"

text \<open>Into a nil \<^verbatim>\<open>*string\<close>: \<^verbatim>\<open>null\<close> leaves the pointer nil.\<close>

fun unmarshalStringPtr :: "jtree \<Rightarrow> error + string option" where
  "unmarshalStringPtr (JString bs s) = Inr (Some s)"
| "unmarshalStringPtr JNull = Inr None"
| "unmarshalStringPtr t = Inl (UnmarshalTypeError (jsonKind t))"

text \<open>Decoding the elements of an array goes on after an element that does not fit;
  the first error met is the one returned.\<close>

fun collect :: "('a \<Rightarrow> error + 'b) \<Rightarrow> 'a list \<Rightarrow> error + 'b list" where
  "collect f [] = Inr []"
| "collect f (x # xs) =
     (case f x of
        Inl e \<Rightarrow> Inl e
      | Inr y \<Rightarrow> (case collect f xs of Inl e \<Rightarrow> Inl e | Inr ys \<Rightarrow> Inr (y # ys)))"

fun unmarshalStringList :: "jtree \<Rightarrow> error + string list" where
  "unmarshalStringList (JArray bs xs) = collect unmarshalString xs"
| "unmarshalStringList JNull = Inr []"
| "unmarshalStringList t = Inl (UnmarshalTypeError (jsonKind t))"

fun unmarshalStringListList :: "jtree \<Rightarrow> error + string list list" where
  "unmarshalStringListList (JArray bs xs) = collect unmarshalStringList xs"
| "unmarshalStringListList JNull = Inr []"
| "unmarshalStringListList t = Inl (UnmarshalTypeError (jsonKind t))"

definition digitsVal :: "string \<Rightarrow> int" where
  "digitsVal ds = foldl (\<lambda>n c. 10 * n + (int (of_char c) - 48)) 0 ds"

text \<open>\<^verbatim>\<open>strconv.ParseInt(lit, 10, 64)\<close> on a JSON number literal.\<close>

definition parseInt64 :: "string \<Rightarrow> int option" where
  "parseInt64 lit =
     (let (neg, ds) = (case lit of
                         [] \<Rightarrow> (False, lit)
                       | c # cs \<Rightarrow> if c = CHR ''-'' then (True, cs) else (False, lit))
      in if ds = [] \<or> \<not> list_all isDigit ds then None
         else (let n = (if neg then - digitsVal ds else digitsVal ds)
               in if - (2 ^ 63) \<le> n \<and> n < 2 ^ 63 then Some n else None))"

fun unmarshalInt64 :: "jtree \<Rightarrow> error + int" where
  "unmarshalInt64 (JNumber lit) =
     (case parseInt64 lit of
        None \<Rightarrow> Inl (UnmarshalTypeError (''number '' @ lit))
      | Some n \<Rightarrow> Inr n)"
| "unmarshalInt64 JNull = Inr 0"
| "unmarshalInt64 t = Inl (UnmarshalTypeError (jsonKind t))"

fun unmarshalInt64Ptr :: "jtree \<Rightarrow> error + int option" where
  "unmarshalInt64Ptr JNull = Inr None"
| "unmarshalInt64Ptr t = (case unmarshalInt64 t of Inl e \<Rightarrow> Inl e | Inr n \<Rightarrow> Inr (Some n))"

fun unmarshalInt64List :: "jtree \<Rightarrow> error + int list" where
  "unmarshalInt64List (JArray bs xs) = collect unmarshalInt64 xs"
| "unmarshalInt64List JNull = Inr []"
| "unmarshalInt64List t = Inl (UnmarshalTypeError (jsonKind t))"

fun unmarshalBool :: "jtree \<Rightarrow> error + bool" where
  "unmarshalBool (JBool b) = Inr b"
| "unmarshalBool JNull = Inr False"
| "unmarshalBool t = Inl (UnmarshalTypeError (jsonKind t))"

fun unmarshalBoolPtr :: "jtree \<Rightarrow> error + bool option" where
  "unmarshalBoolPtr (JBool b) = Inr (Some b)"
| "unmarshalBoolPtr JNull = Inr None"
| "unmarshalBoolPtr t = Inl (UnmarshalTypeError (jsonKind t))"

fun unmarshalArray :: "jtree \<Rightarrow> error + jtree list option" where
  "unmarshalArray (JArray bs xs) = Inr (Some xs)"
| "unmarshalArray JNull = Inr None"
| "unmarshalArray t = Inl (UnmarshalTypeError (jsonKind t))"

text \<open>Every number literal of a document, in source order: decoding into
  \<^verbatim>\<open>interface{}\<close> converts each of them to a \<^verbatim>\<open>float64\<close>.\<close>

fun numberLits :: "jtree \<Rightarrow> string list" where
  "numberLits (JNumber lit) = [lit]"
| "numberLits (JArray bs xs) = concat (map numberLits xs)"
| "numberLits (JObject bs kvs) = concat (map (\<lambda>(k, v). numberLits v) kvs)"
| "numberLits t = []"

section \<open>What the file takes from outside\<close>

text \<open>
  \<^verbatim>\<open>schema.go\<close> uses the regular expression \<^verbatim>\<open>validSubkey\<close> (declared
  elsewhere in the package), the \<^verbatim>\<open>regexp\<close> package for \<^verbatim>\<open>"pattern"\<close>
  constraints, \<^verbatim>\<open>float64\<close> arithmetic, and Go maps, whose iteration order is not
  specified. They are the fields of an environment: \<open>'f\<close> stands for \<^verbatim>\<open>float64\<close>,
  a compiled regular expression is represented by its source, and \<open>mapOrder\<close> gives the
  order in which a \<^verbatim>\<open>range\<close> statement visits the keys of a map.
\<close>

record 'f env =
  validSubkey :: "string \<Rightarrow> bool"
  regexpCompile :: "string \<Rightarrow> bool"
  regexpMatch :: "string \<Rightarrow> string \<Rightarrow> bool"
  parseFloat :: "string \<Rightarrow> 'f option"
  floatZero :: "'f"
  floatLess :: "'f \<Rightarrow> 'f \<Rightarrow> bool"
  floatEq :: "'f \<Rightarrow> 'f \<Rightarrow> bool"
  formatFloat :: "'f \<Rightarrow> string"
  mapOrder :: "string list \<Rightarrow> string list"

definition rangeMap :: "'f env \<Rightarrow> gomap \<Rightarrow> (string \<times> jtree) list" where
  "rangeMap env m =
     concat (map (\<lambda>k. case map_of m k of None \<Rightarrow> [] | Some v \<Rightarrow> [(k, v)])
                 (mapOrder env (map fst m)))"

definition orderOk :: "'f env \<Rightarrow> bool" where
  "orderOk env \<longleftrightarrow> (\<forall>ks. distinct ks \<longrightarrow> distinct (mapOrder env ks) \<and> set (mapOrder env ks) = set ks)"

text \<open>Modelled from the spec: the regular expression \<^verbatim>\<open>validUserType\<close> is declared
  outside \<^verbatim>\<open>schema.go\<close>; the spec gives the grammar of named-type identifiers as
  \<^verbatim>\<open>[a-z][a-z0-9-]*\<close>.\<close>

definition isLower :: "char \<Rightarrow> bool" where
  "isLower c \<longleftrightarrow> (97::nat) \<le> of_char c \<and> of_char c \<le> (122::nat)"

definition validUserType :: "string \<Rightarrow> bool" where
  "validUserType name =
     (case name of
        [] \<Rightarrow> False
      | c # cs \<Rightarrow> isLower c \<and> list_all (\<lambda>x. isLower x \<or> isDigit x \<or> x = CHR ''-'') cs)"

text \<open>Floats: decoding into a \<^verbatim>\<open>float64\<close> variable, a pointer, a slice, and
  into \<^verbatim>\<open>interface{}\<close>.\<close>

fun unmarshalFloat64 :: "'f env \<Rightarrow> jtree \<Rightarrow> error + 'f" where
  "unmarshalFloat64 env (JNumber lit) =
     (case parseFloat env lit of
        None \<Rightarrow> Inl (UnmarshalTypeError (''number '' @ lit))
      | Some x \<Rightarrow> Inr x)"
| "unmarshalFloat64 env JNull = Inr (floatZero env)"
| "unmarshalFloat64 env t = Inl (UnmarshalTypeError (jsonKind t))"

fun unmarshalFloat64Ptr :: "'f env \<Rightarrow> jtree \<Rightarrow> error + 'f option" where
  "unmarshalFloat64Ptr env JNull = Inr None"
| "unmarshalFloat64Ptr env t =
     (case unmarshalFloat64 env t of Inl e \<Rightarrow> Inl e | Inr x \<Rightarrow> Inr (Some x))"

fun unmarshalFloat64List :: "'f env \<Rightarrow> jtree \<Rightarrow> error + 'f list" where
  "unmarshalFloat64List env (JArray bs xs) = collect (unmarshalFloat64 env) xs"
| "unmarshalFloat64List env JNull = Inr []"
| "unmarshalFloat64List env t = Inl (UnmarshalTypeError (jsonKind t))"

text \<open>Into a nil \<^verbatim>\<open>interface{}\<close>: the result says whether the value is non-nil.\<close>

definition unmarshalAny :: "'f env \<Rightarrow> jtree \<Rightarrow> error + bool" where
  "unmarshalAny env t =
     (case filter (\<lambda>lit. parseFloat env lit = None) (numberLits t) of
        lit # _ \<Rightarrow> Inl (UnmarshalTypeError (''number '' @ lit))
      | [] \<Rightarrow> Inr (t \<noteq> JNull))"


section \<open>Compiled schemas\<close>

text \<open>
  The Go schema nodes are heap objects reached through the \<^verbatim>\<open>Schema\<close> and
  \<^verbatim>\<open>parser\<close> interfaces. An object of one of the seven concrete struct types lives
  at an address of the heap, since \<^verbatim>\<open>parseConstraints\<close> writes its fields in place
  and the object of a user-defined type is shared by every reference to it. A
  \<^verbatim>\<open>*userTypeRefParser\<close> is never written after \<^verbatim>\<open>newUserTypeRefParser\<close>
  built it, so it is a value: the wrapped parser and the \<^verbatim>\<open>stringBased\<close> flag.
  The back pointer \<^verbatim>\<open>topSchema\<close> of maps and arrays is the table of user types
  that the functions below take as an argument.
\<close>

datatype iface = Ptr nat | UserTypeRef (wrapped: iface) (stringBased: bool)

datatype 'f schemaObj =
    MapSchema (entrySchemas: "(string \<times> iface) list option") (valueSchema: "iface option")
              (keySchema: "iface option") (requiredCombs: "string list list")
  | StringSchema (pattern: "string option") (str_choices: "string list")
  | IntSchema (int_min: "int option") (int_max: "int option") (int_choices: "int list")
  | AnySchema
  | NumberSchema (num_min: "'f option") (num_max: "'f option") (num_choices: "'f list")
  | BooleanSchema
  | ArraySchema (elementType: "iface option") (unique: bool)

type_synonym 'f heap = "'f schemaObj list"

definition heapGet :: "'f heap \<Rightarrow> nat \<Rightarrow> 'f schemaObj option" where
  "heapGet h a = (if a < length h then Some (h ! a) else None)"

section \<open>Validation\<close>

definition validationErrorFrom :: "error \<Rightarrow> error" where
  "validationErrorFrom err = ValidationError [] err"

definition validationErrorf :: "string \<Rightarrow> fmtArg list \<Rightarrow> error" where
  "validationErrorf format v = ValidationError [] (Errorf format v)"

text \<open>The deferred function of the scalar validators: a returned error is wrapped.\<close>

definition deferWrap :: "error + unit \<Rightarrow> error + unit" where
  "deferWrap r = (case r of Inl err \<Rightarrow> Inl (validationErrorFrom err) | Inr u \<Rightarrow> Inr u)"

text \<open>A loop whose body may return an error, leaving the loop.\<close>

fun forEach :: "('a \<Rightarrow> error + unit) \<Rightarrow> 'a list \<Rightarrow> error + unit" where
  "forEach f [] = Inr ()"
| "forEach f (x # xs) = (case f x of Inl e \<Rightarrow> Inl e | Inr u \<Rightarrow> forEach f xs)"

lemma forEach_cong [fundef_cong]:
  "xs = ys \<Longrightarrow> (\<And>x. x \<in> set ys \<Longrightarrow> f x = g x) \<Longrightarrow> forEach f xs = forEach g ys"
  by (induction ys arbitrary: xs) (auto split: sum.splits)

subsection \<open>Scalars\<close>

definition stringSchema_Validate :: "'f env \<Rightarrow> 'f schemaObj \<Rightarrow> jtree \<Rightarrow> error + unit" where
  \<open>stringSchema_Validate env v raw = deferWrap
     (case unmarshalStringPtr raw of
        Inl err \<Rightarrow>
          (case err of
             UnmarshalTypeError val \<Rightarrow> Inl (Errorf ''expected string type but got %s'' [S val])
           | _ \<Rightarrow> Inl err)
      | Inr None \<Rightarrow> Inl (Errorf ''cannot accept null value for "string" type'' [])
      | Inr (Some val) \<Rightarrow>
          if str_choices v \<noteq> [] \<and> val \<notin> set (str_choices v)
          then Inl (Errorf ''string %q is not one of the allowed choices'' [S val])
          else (case pattern v of
                  None \<Rightarrow> Inr ()
                | Some p \<Rightarrow>
                    if \<not> regexpMatch env p val
                    then Inl (Errorf ''string %q doesn't match schema pattern %s'' [S val, S p])
                    else Inr ()))\<close>

function showNat :: "nat \<Rightarrow> string" where
  "showNat n = (if n < 10 then [char_of (48 + n)] else showNat (n div 10) @ [char_of (48 + n mod 10)])"
  by pat_completeness auto
termination
  by (relation "measure id") auto

definition showInt :: "int \<Rightarrow> string" where
  "showInt i = (if i < 0 then CHR ''-'' # showNat (nat (- i)) else showNat (nat i))"

text \<open>\<^verbatim>\<open>validateNumber\<close> is generic in the number type: its equality and order, and how
  \<^verbatim>\<open>%v\<close> prints it, are arguments here.\<close>

definition validateNumber ::
  "('n \<Rightarrow> 'n \<Rightarrow> bool) \<Rightarrow> ('n \<Rightarrow> 'n \<Rightarrow> bool) \<Rightarrow> ('n \<Rightarrow> string) \<Rightarrow>
   'n \<Rightarrow> 'n list \<Rightarrow> 'n option \<Rightarrow> 'n option \<Rightarrow> error + unit" where
  "validateNumber eq lt fmt num choices mn mx =
     (if choices \<noteq> [] \<and> \<not> list_ex (\<lambda>choice. eq num choice) choices
      then Inl (Errorf ''%v is not one of the allowed choices'' [S (fmt num)])
      else (case mn of
              Some m \<Rightarrow> if lt num m
                        then Inl (Errorf ''%v is less than the allowed minimum %v'' [S (fmt num), S (fmt m)])
                        else (case mx of
                                Some m' \<Rightarrow> if lt m' num
                                  then Inl (Errorf ''%v is greater than the allowed maximum %v'' [S (fmt num), S (fmt m')])
                                  else Inr ()
                              | None \<Rightarrow> Inr ())
            | None \<Rightarrow> (case mx of
                         Some m' \<Rightarrow> if lt m' num
                           then Inl (Errorf ''%v is greater than the allowed maximum %v'' [S (fmt num), S (fmt m')])
                           else Inr ()
                       | None \<Rightarrow> Inr ())))"

definition intSchema_Validate :: "'f schemaObj \<Rightarrow> jtree \<Rightarrow> error + unit" where
  \<open>intSchema_Validate v raw = deferWrap
     (case unmarshalInt64Ptr raw of
        Inl err \<Rightarrow>
          (case err of
             UnmarshalTypeError val \<Rightarrow> Inl (Errorf ''expected int type but got %s'' [S val])
           | _ \<Rightarrow> Inl err)
      | Inr None \<Rightarrow> Inl (Errorf ''cannot accept null value for "int" type'' [])
      | Inr (Some num) \<Rightarrow>
          validateNumber (=) (<) showInt num (int_choices v) (int_min v) (int_max v))\<close>

definition anySchema_Validate :: "'f env \<Rightarrow> jtree \<Rightarrow> error + unit" where
  \<open>anySchema_Validate env raw = deferWrap
     (case unmarshalAny env raw of
        Inl err \<Rightarrow> Inl err
      | Inr nonNil \<Rightarrow>
          if \<not> nonNil then Inl (Errorf ''cannot accept null value for "any" type'' [])
          else Inr ())\<close>

definition numberSchema_Validate :: "'f env \<Rightarrow> 'f schemaObj \<Rightarrow> jtree \<Rightarrow> error + unit" where
  \<open>numberSchema_Validate env v raw = deferWrap
     (case unmarshalFloat64Ptr env raw of
        Inl err \<Rightarrow>
          (case err of
             UnmarshalTypeError val \<Rightarrow> Inl (Errorf ''expected number type but got %s'' [S val])
           | _ \<Rightarrow> Inl err)
      | Inr None \<Rightarrow> Inl (Errorf ''cannot accept null value for "number" type'' [])
      | Inr (Some num) \<Rightarrow>
          validateNumber (floatEq env) (floatLess env) (formatFloat env) num
            (num_choices v) (num_min v) (num_max v))\<close>

definition booleanSchema_Validate :: "jtree \<Rightarrow> error + unit" where
  \<open>booleanSchema_Validate raw = deferWrap
     (case unmarshalBoolPtr raw of
        Inl err \<Rightarrow>
          (case err of
             UnmarshalTypeError val \<Rightarrow> Inl (Errorf ''expected bool type but got %s'' [S val])
           | _ \<Rightarrow> Inl err)
      | Inr None \<Rightarrow> Inl (Errorf ''cannot accept null value for "bool" type'' [])
      | Inr (Some b) \<Rightarrow> Inr ())\<close>

subsection \<open>Maps\<close>

definition validMapKeys :: "'f env \<Rightarrow> gomap \<Rightarrow> error + unit" where
  "validMapKeys env v =
     forEach (\<lambda>(k, x). if \<not> validSubkey env k
                        then Inl (Errorf ''key %q doesn't conform to required format'' [S k])
                        else Inr ())
             (rangeMap env v)"

text \<open>The inner loop of the required-keys check: is a key of the combination absent?\<close>

fun keyMissing :: "gomap \<Rightarrow> string list \<Rightarrow> bool" where
  "keyMissing mapValue [] = False"
| "keyMissing mapValue (key # keys) =
     (if map_of mapValue key = None then True else keyMissing mapValue keys)"

text \<open>The outer loop, from the value \<^verbatim>\<open>missing\<close> has before it to the one after.\<close>

fun requiredLoop :: "gomap \<Rightarrow> bool \<Rightarrow> string list list \<Rightarrow> bool" where
  "requiredLoop mapValue missing [] = missing"
| "requiredLoop mapValue missing (required # rest) =
     (if \<not> keyMissing mapValue required then False
      else requiredLoop mapValue True rest)"

text \<open>\<^verbatim>\<open>mapSchema.Validate\<close> up to the required-keys check: what does not
  descend into the values.\<close>

definition mapSchema_checks :: "'f env \<Rightarrow> 'f schemaObj \<Rightarrow> jtree \<Rightarrow> error + gomap" where
  \<open>mapSchema_checks env v raw =
     (case unmarshalMap raw of
        Inl err \<Rightarrow>
          (case err of
             UnmarshalTypeError val \<Rightarrow> Inl (validationErrorf ''expected map type but got %s'' [S val])
           | _ \<Rightarrow> Inl (validationErrorFrom err))
      | Inr None \<Rightarrow> Inl (validationErrorf ''cannot accept null value for "map" type'' [])
      | Inr (Some mapValue) \<Rightarrow>
         (case validMapKeys env mapValue of
            Inl err \<Rightarrow> Inl (validationErrorFrom err)
          | Inr u \<Rightarrow>
             (case (case entrySchemas v of
                      None \<Rightarrow> Inr ()
                    | Some entries \<Rightarrow>
                        forEach (\<lambda>(key, x). if map_of entries key = None
                                   then Inl (validationErrorf ''map contains unexpected key %q'' [S key])
                                   else Inr ())
                                (rangeMap env mapValue)) of
                Inl err \<Rightarrow> Inl err
              | Inr u \<Rightarrow>
                  if requiredLoop mapValue False (requiredCombs v)
                  then Inl (validationErrorf ''cannot find required combinations of keys'' [])
                  else Inr mapValue)))\<close>

text \<open>What a composite validator does with the error of a child.\<close>

definition prependPath :: "pathElem \<Rightarrow> error + unit \<Rightarrow> error + unit" where
  "prependPath p r =
     (case r of
        Inl (ValidationError path err) \<Rightarrow> Inl (ValidationError (p # path) err)
      | _ \<Rightarrow> r)"

text \<open>\<^verbatim>\<open>json.Marshal\<close> of a string (valid UTF-8, as every decoded key is).\<close>

definition hexDigit :: "nat \<Rightarrow> char" where
  "hexDigit n = (if n < 10 then char_of (48 + n) else char_of (87 + n))"

fun marshalBody :: "string \<Rightarrow> string" where
  "marshalBody [] = []"
| "marshalBody (c # cs) =
     (if c = CHR 0x22 \<or> c = CHR 0x5C then CHR 0x5C # c # marshalBody cs
      else if c = CHR 0x08 then CHR 0x5C # CHR ''b'' # marshalBody cs
      else if c = CHR 0x0C then CHR 0x5C # CHR ''f'' # marshalBody cs
      else if c = CHR 0x0A then CHR 0x5C # CHR ''n'' # marshalBody cs
      else if c = CHR 0x0D then CHR 0x5C # CHR ''r'' # marshalBody cs
      else if c = CHR 0x09 then CHR 0x5C # CHR ''t'' # marshalBody cs
      else if (of_char c :: nat) < 32 \<or> c = CHR ''<'' \<or> c = CHR ''>'' \<or> c = CHR ''&'' then
        CHR 0x5C # CHR ''u'' # CHR ''0'' # CHR ''0'' # hexDigit (of_char c div 16)
          # hexDigit (of_char c mod 16) # marshalBody cs
      else if c = CHR 0xE2 \<and> take 2 cs = [CHR 0x80, CHR 0xA8] then
        CHR 0x5C # ''u2028'' @ marshalBody (drop 2 cs)
      else if c = CHR 0xE2 \<and> take 2 cs = [CHR 0x80, CHR 0xA9] then
        CHR 0x5C # ''u2029'' @ marshalBody (drop 2 cs)
      else c # marshalBody cs)"

definition marshalString :: "string \<Rightarrow> jtree" where
  "marshalString k = JString (CHR 0x22 # marshalBody k @ [CHR 0x22]) k"

subsection \<open>Arrays\<close>

definition arraySchema_decode :: "jtree \<Rightarrow> error + jtree list" where
  \<open>arraySchema_decode raw =
     (case unmarshalArray raw of
        Inl err \<Rightarrow>
          (case err of
             UnmarshalTypeError val \<Rightarrow> Inl (validationErrorf ''expected array type but got %s'' [S val])
           | _ \<Rightarrow> Inl (validationErrorFrom err))
      | Inr None \<Rightarrow> Inl (validationErrorf ''cannot accept null value for "array" type'' [])
      | Inr (Some array) \<Rightarrow> Inr array)\<close>

text \<open>The loop over \<^verbatim>\<open>valSet\<close>, the set of encodings seen so far.\<close>

fun uniqueLoop :: "string list \<Rightarrow> jtree list \<Rightarrow> error + unit" where
  "uniqueLoop valSet [] = Inr ()"
| \<open>uniqueLoop valSet (val # rest) =
     (let encodedVal = rawBytes val
      in if encodedVal \<in> set valSet
         then Inl (validationErrorf ''cannot accept duplicate values for array with "unique" constraint'' [])
         else uniqueLoop (encodedVal # valSet) rest)\<close>

subsection \<open>The validator\<close>

text \<open>A decoded child is a smaller tree than the document it comes from: this is
  what makes the descent of \<^verbatim>\<open>Validate\<close> end.\<close>

lemma toMap_aux: "set (foldl (\<lambda>m (k, v). AList.update k v m) m kvs) \<subseteq> set m \<union> set kvs"
proof (induction kvs arbitrary: m)
  case Nil
  then show ?case by simp
next
  case (Cons kv kvs)
  obtain k v where kv: "kv = (k, v)" by (cases kv)
  have "set (AList.update k v m) \<subseteq> insert (k, v) (set m)"
    by (induction m) auto
  with Cons.IH [of "AList.update k v m"] show ?case
    unfolding kv by auto
qed

lemma toMap_subset: "set (toMap kvs) \<subseteq> set kvs"
  using toMap_aux [of "[]" kvs] by (simp add: toMap_def)

lemma rangeMap_subset: "set (rangeMap env m) \<subseteq> set m"
proof
  fix kv assume "kv \<in> set (rangeMap env m)"
  then obtain k v where "kv = (k, v)" "map_of m k = Some v"
    by (auto simp: rangeMap_def split: option.splits)
  then show "kv \<in> set m" by (simp add: map_of_SomeD)
qed

lemma size_member: "(k, v) \<in> set kvs \<Longrightarrow> size v < size (JObject bs kvs)"
  by (induction kvs) auto

lemma size_element: "x \<in> set xs \<Longrightarrow> size x < size (JArray bs xs)"
  by (induction xs) auto

lemma unmarshalMap_size:
  "unmarshalMap raw = Inr (Some m) \<Longrightarrow> (k, v) \<in> set m \<Longrightarrow> size v < size raw"
proof (cases raw)
  case (JObject bs kvs)
  assume "unmarshalMap raw = Inr (Some m)" "(k, v) \<in> set m"
  with JObject toMap_subset [of kvs] have "(k, v) \<in> set kvs" by auto
  then show ?thesis unfolding JObject by (rule size_member)
qed auto

lemma mapSchema_checks_size:
  "mapSchema_checks env s raw = Inr mapValue \<Longrightarrow> (k, v) \<in> set (rangeMap env mapValue) \<Longrightarrow> size v < size raw"
  using rangeMap_subset [of env mapValue]
  by (auto simp: mapSchema_checks_def split: sum.splits option.splits error.splits if_splits
           intro: unmarshalMap_size)

lemma mapSchema_checks_pos:
  "mapSchema_checks env s raw = Inr mapValue \<Longrightarrow> 0 < size raw"
  by (cases raw) (auto simp: mapSchema_checks_def split: sum.splits option.splits error.splits if_splits)

lemma arraySchema_decode_size:
  "arraySchema_decode raw = Inr array \<Longrightarrow> (e, val) \<in> set (enumerate n array) \<Longrightarrow> size val < size raw"
proof (cases raw)
  case (JArray bs xs)
  assume "arraySchema_decode raw = Inr array" "(e, val) \<in> set (enumerate n array)"
  with JArray have "val \<in> set xs"
    by (auto simp: arraySchema_decode_def in_set_enumerate_eq)
  then show ?thesis unfolding JArray by (rule size_element)
qed (auto simp: arraySchema_decode_def)

text \<open>
  \<^verbatim>\<open>Validate\<close> through the \<^verbatim>\<open>Schema\<close> interface: a user-type reference
  delegates to the parser it wraps, a pointer dispatches on the struct type of the
  object. An array has its elements validated in order; a map has its entries visited
  in the order of \<open>mapOrder\<close>.
\<close>

function Validate :: "'f env \<Rightarrow> 'f heap \<Rightarrow> iface \<Rightarrow> jtree \<Rightarrow> error + unit" where
  "Validate env h (UserTypeRef p sb) raw = Validate env h p raw"
| "Validate env h (Ptr a) raw =
     (case heapGet h a of
        None \<Rightarrow> Inl NilDereference
      | Some v \<Rightarrow>
          (case v of
             StringSchema pat chs \<Rightarrow> stringSchema_Validate env v raw
           | IntSchema mn mx chs \<Rightarrow> intSchema_Validate v raw
           | AnySchema \<Rightarrow> anySchema_Validate env raw
           | NumberSchema mn mx chs \<Rightarrow> numberSchema_Validate env v raw
           | BooleanSchema \<Rightarrow> booleanSchema_Validate raw
           | ArraySchema et uq \<Rightarrow>
               (case arraySchema_decode raw of
                  Inl err \<Rightarrow> Inl err
                | Inr array \<Rightarrow>
                   (case forEach (\<lambda>(e, val). case et of
                                      None \<Rightarrow> Inl NilDereference
                                    | Some t \<Rightarrow> prependPath (Idx e) (Validate env h t val))
                                 (enumerate 0 array) of
                      Inl err \<Rightarrow> Inl err
                    | Inr u \<Rightarrow> if uq then uniqueLoop [] array else Inr ()))
           | MapSchema es vs ks rc \<Rightarrow>
               (case mapSchema_checks env v raw of
                  Inl err \<Rightarrow> Inl err
                | Inr mapValue \<Rightarrow>
                   (case es of
                      Some entries \<Rightarrow>
                        forEach (\<lambda>(key, val). case map_of entries key of
                                     None \<Rightarrow> Inr ()
                                   | Some validator \<Rightarrow>
                                       prependPath (Key key) (Validate env h validator val))
                                (rangeMap env mapValue)
                    | None \<Rightarrow>
                       (case (case ks of
                                None \<Rightarrow> Inr ()
                              | Some keyS \<Rightarrow>
                                  forEach (\<lambda>(k, x). prependPath (Key k)
                                             (Validate env h keyS (marshalString k)))
                                          (rangeMap env mapValue)) of
                          Inl err \<Rightarrow> Inl err
                        | Inr u \<Rightarrow>
                           (case vs of
                              None \<Rightarrow> Inr ()
                            | Some valS \<Rightarrow>
                                forEach (\<lambda>(k, val). prependPath (Key k) (Validate env h valS val))
                                        (rangeMap env mapValue)))))))"
  by pat_completeness auto
termination
proof (relation "measures [\<lambda>(env, h, i, raw). size raw, \<lambda>(env, h, i, raw). size i]", goal_cases)
  case 1
  show ?case by simp
next
  case 2
  show ?case by simp
next
  case 3
  then show ?case
    using mapSchema_checks_pos by (fastforce simp: marshalString_def)
next
  case 4
  then show ?case
    using mapSchema_checks_size by fastforce
next
  case 5
  then show ?case
    using mapSchema_checks_size by fastforce
next
  case 6
  then show ?case
    using arraySchema_decode_size by fastforce
qed

section \<open>The schema compiler\<close>

text \<open>The table \<^verbatim>\<open>userTypes\<close> of a \<^verbatim>\<open>StorageSchema\<close>.\<close>

type_synonym userTypeTable = "(string \<times> iface) list"

record 'f StorageSchema =
  heap :: "'f heap"
  topLevel :: iface
  userTypes :: userTypeTable

definition newUserTypeRefParser :: "'f heap \<Rightarrow> iface \<Rightarrow> iface" where
  "newUserTypeRefParser h p =
     UserTypeRef p (case p of
                      Ptr a \<Rightarrow> (case heapGet h a of
                                  Some (StringSchema pat chs) \<Rightarrow> True
                                | _ \<Rightarrow> False)
                    | UserTypeRef q b \<Rightarrow> False)"

fun isStringBased :: "iface \<Rightarrow> bool" where
  "isStringBased (UserTypeRef p sb) = sb"
| "isStringBased (Ptr a) = False"

definition getUserType :: "userTypeTable \<Rightarrow> string \<Rightarrow> error + iface" where
  "getUserType ut ref =
     (case map_of ut ref of
        Some userType \<Rightarrow> Inr userType
      | None \<Rightarrow> Inl (Errorf ''cannot find user-defined type %q'' [S ref]))"

definition alloc :: "'f heap \<Rightarrow> 'f schemaObj \<Rightarrow> 'f heap \<times> iface" where
  "alloc h obj = (h @ [obj], Ptr (length h))"

definition newTypeSchema :: "userTypeTable \<Rightarrow> 'f heap \<Rightarrow> string \<Rightarrow> error + 'f heap \<times> iface" where
  "newTypeSchema ut h typ =
     (if typ = ''map'' then Inr (alloc h (MapSchema None None None []))
      else if typ = ''string'' then Inr (alloc h (StringSchema None []))
      else if typ = ''int'' then Inr (alloc h (IntSchema None None []))
      else if typ = ''any'' then Inr (alloc h AnySchema)
      else if typ = ''number'' then Inr (alloc h (NumberSchema None None []))
      else if typ = ''bool'' then Inr (alloc h BooleanSchema)
      else if typ = ''array'' then Inr (alloc h (ArraySchema None False))
      else if typ \<noteq> [] \<and> hd typ = CHR ''$'' then
        (case getUserType ut (tl typ) of
           Inl err \<Rightarrow> Inl err
         | Inr userType \<Rightarrow> Inr (h, userType))
      else Inl (Errorf ''cannot parse unknown type %q'' [S typ]))"

fun expectsConstraints :: "'f heap \<Rightarrow> iface \<Rightarrow> bool" where
  "expectsConstraints h (UserTypeRef p sb) = False"
| "expectsConstraints h (Ptr a) =
     (case heapGet h a of
        Some (MapSchema es vs ks rc) \<Rightarrow> True
      | Some (ArraySchema et uq) \<Rightarrow> True
      | _ \<Rightarrow> False)"

subsection \<open>Constraints of the scalar types\<close>

text \<open>Each takes the object as it is and returns it as \<^verbatim>\<open>parseConstraints\<close>
  leaves it. The slice \<^verbatim>\<open>choices\<close> is only ever assigned a non-empty list, so
  \<^verbatim>\<open>v.choices != nil\<close> is \<open>\<noteq> []\<close>.\<close>

definition stringSchema_choices :: "'f schemaObj \<Rightarrow> gomap \<Rightarrow> error + 'f schemaObj" where
  \<open>stringSchema_choices v constraints =
     (case map_of constraints ''choices'' of
        None \<Rightarrow> Inr v
      | Some rawChoices \<Rightarrow>
          (case unmarshalStringList rawChoices of
             Inl err \<Rightarrow> Inl (Errorf ''cannot parse "choices" constraint: %w'' [E err])
           | Inr choices \<Rightarrow>
               if length choices = 0
               then Inl (Errorf ''cannot have a "choices" constraint with an empty list'' [])
               else Inr (StringSchema (pattern v) choices)))\<close>

definition stringSchema_pattern :: "'f env \<Rightarrow> 'f schemaObj \<Rightarrow> gomap \<Rightarrow> error + 'f schemaObj" where
  \<open>stringSchema_pattern env v constraints =
     (case map_of constraints ''pattern'' of
        None \<Rightarrow> Inr v
      | Some rawPattern \<Rightarrow>
          if str_choices v \<noteq> []
          then Inl (Errorf ''cannot use "choices" and "pattern" constraints in same schema'' [])
          else (case unmarshalString rawPattern of
                  Inl err \<Rightarrow> Inl (Errorf ''cannot parse "pattern" constraint: %w'' [E err])
                | Inr patt \<Rightarrow>
                    if regexpCompile env patt
                    then Inr (StringSchema (Some patt) (str_choices v))
                    else Inl (Errorf ''cannot parse "pattern" constraint: %w'' [E (RegexpError patt)])))\<close>

text \<open>\<^verbatim>\<open>stringSchema.parseConstraints\<close>: the block of \<^verbatim>\<open>"choices"\<close> (lines 535 to
  546), then the block of \<^verbatim>\<open>"pattern"\<close> (lines 548 to 562).\<close>

definition stringSchema_parseConstraints ::
  "'f env \<Rightarrow> 'f schemaObj \<Rightarrow> gomap \<Rightarrow> error + 'f schemaObj" where
  "stringSchema_parseConstraints env v constraints =
     (case stringSchema_choices v constraints of
        Inl err \<Rightarrow> Inl err
      | Inr v1 \<Rightarrow> stringSchema_pattern env v1 constraints)"

definition intSchema_choices :: "'f schemaObj \<Rightarrow> gomap \<Rightarrow> error + 'f schemaObj" where
  \<open>intSchema_choices v constraints =
     (case map_of constraints ''choices'' of
        None \<Rightarrow> Inr v
      | Some rawChoices \<Rightarrow>
          (case unmarshalInt64List rawChoices of
             Inl err \<Rightarrow> Inl (Errorf ''cannot parse "choices" constraint: %v'' [E err])
           | Inr choices \<Rightarrow>
               if length choices = 0
               then Inl (Errorf ''cannot have "choices" constraint with empty list'' [])
               else Inr (IntSchema (int_min v) (int_max v) choices)))\<close>

definition intSchema_min :: "'f schemaObj \<Rightarrow> gomap \<Rightarrow> error + 'f schemaObj" where
  \<open>intSchema_min v constraints =
     (case map_of constraints ''min'' of
        None \<Rightarrow> Inr v
      | Some rawMin \<Rightarrow>
          if int_choices v \<noteq> []
          then Inl (Errorf ''cannot have "choices" and "min" constraints'' [])
          else (case unmarshalInt64 rawMin of
                  Inl err \<Rightarrow> Inl (Errorf ''cannot parse "min" constraint: %v'' [E err])
                | Inr mn \<Rightarrow> Inr (IntSchema (Some mn) (int_max v) (int_choices v))))\<close>

definition intSchema_max :: "'f schemaObj \<Rightarrow> gomap \<Rightarrow> error + 'f schemaObj" where
  \<open>intSchema_max v constraints =
     (case map_of constraints ''max'' of
        None \<Rightarrow> Inr v
      | Some rawMax \<Rightarrow>
          if int_choices v \<noteq> []
          then Inl (Errorf ''cannot have "choices" and "max" constraints'' [])
          else (case unmarshalInt64 rawMax of
                  Inl err \<Rightarrow> Inl (Errorf ''cannot parse "max" constraint: %v'' [E err])
                | Inr mx \<Rightarrow> Inr (IntSchema (int_min v) (Some mx) (int_choices v))))\<close>

definition intSchema_bounds :: "'f schemaObj \<Rightarrow> error + 'f schemaObj" where
  \<open>intSchema_bounds v =
     (case int_min v of
        None \<Rightarrow> Inr v
      | Some mn \<Rightarrow>
          (case int_max v of
             None \<Rightarrow> Inr v
           | Some mx \<Rightarrow>
               if mn > mx
               then Inl (Errorf ''cannot have "min" constraint with value greater than "max"'' [])
               else Inr v))\<close>

text \<open>\<^verbatim>\<open>intSchema.parseConstraints\<close>: the blocks of \<^verbatim>\<open>"choices"\<close> (lines 600 to
  612), \<^verbatim>\<open>"min"\<close> (614 to 624) and \<^verbatim>\<open>"max"\<close> (626 to 636), then the comparison
  of the bounds (638 to 640).\<close>

definition intSchema_parseConstraints :: "'f schemaObj \<Rightarrow> gomap \<Rightarrow> error + 'f schemaObj" where
  "intSchema_parseConstraints v constraints =
     (case intSchema_choices v constraints of
        Inl err \<Rightarrow> Inl err
      | Inr v1 \<Rightarrow>
          (case intSchema_min v1 constraints of
             Inl err \<Rightarrow> Inl err
           | Inr v2 \<Rightarrow>
               (case intSchema_max v2 constraints of
                  Inl err \<Rightarrow> Inl err
                | Inr v3 \<Rightarrow> intSchema_bounds v3)))"

definition numberSchema_choices :: "'f env \<Rightarrow> 'f schemaObj \<Rightarrow> gomap \<Rightarrow> error + 'f schemaObj" where
  \<open>numberSchema_choices env v constraints =
     (case map_of constraints ''choices'' of
        None \<Rightarrow> Inr v
      | Some rawChoices \<Rightarrow>
          (case unmarshalFloat64List env rawChoices of
             Inl err \<Rightarrow> Inl (Errorf ''cannot parse "choices" constraint: %v'' [E err])
           | Inr choices \<Rightarrow>
               if length choices = 0
               then Inl (Errorf ''cannot have "choices" constraint with empty list'' [])
               else Inr (NumberSchema (num_min v) (num_max v) choices)))\<close>

definition numberSchema_min :: "'f env \<Rightarrow> 'f schemaObj \<Rightarrow> gomap \<Rightarrow> error + 'f schemaObj" where
  \<open>numberSchema_min env v constraints =
     (case map_of constraints ''min'' of
        None \<Rightarrow> Inr v
      | Some rawMin \<Rightarrow>
          if num_choices v \<noteq> []
          then Inl (Errorf ''cannot have "choices" and "min" constraints'' [])
          else (case unmarshalFloat64 env rawMin of
                  Inl err \<Rightarrow> Inl (Errorf ''cannot parse "min" constraint: %v'' [E err])
                | Inr mn \<Rightarrow> Inr (NumberSchema (Some mn) (num_max v) (num_choices v))))\<close>

definition numberSchema_max :: "'f env \<Rightarrow> 'f schemaObj \<Rightarrow> gomap \<Rightarrow> error + 'f schemaObj" where
  \<open>numberSchema_max env v constraints =
     (case map_of constraints ''max'' of
        None \<Rightarrow> Inr v
      | Some rawMax \<Rightarrow>
          if num_choices v \<noteq> []
          then Inl (Errorf ''cannot have "choices" and "max" constraints'' [])
          else (case unmarshalFloat64 env rawMax of
                  Inl err \<Rightarrow> Inl (Errorf ''cannot parse "max" constraint: %v'' [E err])
                | Inr mx \<Rightarrow> Inr (NumberSchema (num_min v) (Some mx) (num_choices v))))\<close>

definition numberSchema_bounds :: "'f env \<Rightarrow> 'f schemaObj \<Rightarrow> error + 'f schemaObj" where
  \<open>numberSchema_bounds env v =
     (case num_min v of
        None \<Rightarrow> Inr v
      | Some mn \<Rightarrow>
          (case num_max v of
             None \<Rightarrow> Inr v
           | Some mx \<Rightarrow>
               if floatLess env mx mn
               then Inl (Errorf ''cannot have "min" constraint with value greater than "max"'' [])
               else Inr v))\<close>

text \<open>\<^verbatim>\<open>numberSchema.parseConstraints\<close>, block by block as for the integers (lines
  733 to 773); \<^verbatim>\<open>*v.min > *v.max\<close> is the order of \<^verbatim>\<open>float64\<close>.\<close>

definition numberSchema_parseConstraints ::
  "'f env \<Rightarrow> 'f schemaObj \<Rightarrow> gomap \<Rightarrow> error + 'f schemaObj" where
  "numberSchema_parseConstraints env v constraints =
     (case numberSchema_choices env v constraints of
        Inl err \<Rightarrow> Inl err
      | Inr v1 \<Rightarrow>
          (case numberSchema_min env v1 constraints of
             Inl err \<Rightarrow> Inl err
           | Inr v2 \<Rightarrow>
               (case numberSchema_max env v2 constraints of
                  Inl err \<Rightarrow> Inl err
                | Inr v3 \<Rightarrow> numberSchema_bounds env v3)))"

subsection \<open>Constraints of maps\<close>

definition checkExclusiveMapConstraints :: "gomap \<Rightarrow> error + unit" where
  \<open>checkExclusiveMapConstraints obj =
     (let has = (\<lambda>k. map_of obj k \<noteq> None)
      in if has ''required'' \<and> \<not> has ''schema''
         then Inl (Errorf ''cannot use "required" without "schema" constraint'' [])
         else if has ''schema'' \<and> has ''keys''
         then Inl (Errorf ''cannot use "schema" and "keys" constraints simultaneously'' [])
         else if has ''schema'' \<and> has ''values''
         then Inl (Errorf ''cannot use "schema" and "values" constraints simultaneously'' [])
         else Inr ())\<close>

text \<open>\<^verbatim>\<open>parseMapKeyType\<close> allocates a string schema for a key type given as an
  object; it returns the heap with it.\<close>

definition parseMapKeyType ::
  "'f env \<Rightarrow> userTypeTable \<Rightarrow> 'f heap \<Rightarrow> jtree \<Rightarrow> error + 'f heap \<times> iface" where
  \<open>parseMapKeyType env ut h raw =
     (case unmarshalString raw of
        Inl err \<Rightarrow>
          if \<not> isUnmarshalTypeError err then Inl err
          else (case unmarshalMap raw of
                  Inl err' \<Rightarrow> Inl err'
                | Inr schemaDef \<Rightarrow>
                   (case (case map_of (orEmpty schemaDef) ''type'' of
                            None \<Rightarrow> Inr ()
                          | Some rawType \<Rightarrow>
                              (case unmarshalString rawType of
                                 Inl err' \<Rightarrow> Inl err'
                               | Inr typ \<Rightarrow>
                                   if typ \<noteq> ''string''
                                   then Inl (Errorf ''must be based on string but got %q'' [S typ])
                                   else Inr ())) of
                      Inl err' \<Rightarrow> Inl err'
                    | Inr u \<Rightarrow>
                       (case stringSchema_parseConstraints env (StringSchema None []) (orEmpty schemaDef) of
                          Inl err' \<Rightarrow> Inl err'
                        | Inr schema \<Rightarrow> Inr (alloc h schema))))
      | Inr typ \<Rightarrow>
          if typ = ''string'' then Inr (alloc h (StringSchema None []))
          else if typ \<noteq> [] \<and> hd typ = CHR ''$'' then
            (case getUserType ut (tl typ) of
               Inl err \<Rightarrow> Inl err
             | Inr userType \<Rightarrow>
                 if \<not> isStringBased userType
                 then Inl (Errorf ''key type %q must be based on string'' [S (tl typ)])
                 else Inr (h, userType))
          else Inl (Errorf ''keys must be based on string but got %q'' [S typ]))\<close>

text \<open>The \<^verbatim>\<open>"required"\<close> constraint: a list of lists of keys, or one list of keys.\<close>

definition parseRequired :: "jtree \<Rightarrow> error + string list list" where
  \<open>parseRequired rawRequired =
     (case unmarshalStringListList rawRequired of
        Inl err \<Rightarrow>
          if \<not> isUnmarshalTypeError err
          then Inl (Errorf ''cannot parse map's "required" constraint: %v'' [E err])
          else (case unmarshalStringList rawRequired of
                  Inl err' \<Rightarrow> Inl (Errorf ''cannot parse map's "required" constraint: %v'' [E err'])
                | Inr required \<Rightarrow> Inr [required])
      | Inr combs \<Rightarrow> Inr combs)\<close>

definition checkRequiredEntries :: "(string \<times> iface) list option \<Rightarrow> string list list \<Rightarrow> error + unit" where
  \<open>checkRequiredEntries es combs =
     forEach (\<lambda>requiredComb.
        forEach (\<lambda>required.
           if (case es of None \<Rightarrow> None | Some entries \<Rightarrow> map_of entries required) = None
           then Inl (Errorf ''cannot parse map's "required" constraint: required key %q must have schema entry'' [S required])
           else Inr ())
         requiredComb)
       combs\<close>

text \<open>Writes to the fields of the object at an address.\<close>

definition heapUpdate :: "'f heap \<Rightarrow> nat \<Rightarrow> ('f schemaObj \<Rightarrow> 'f schemaObj) \<Rightarrow> 'f heap" where
  "heapUpdate h a f = (case heapGet h a of None \<Rightarrow> h | Some v \<Rightarrow> h[a := f v])"

definition setEntrySchemas :: "(string \<times> iface) list option \<Rightarrow> 'f schemaObj \<Rightarrow> 'f schemaObj" where
  "setEntrySchemas es v = MapSchema es (valueSchema v) (keySchema v) (requiredCombs v)"

definition setValueSchema :: "iface option \<Rightarrow> 'f schemaObj \<Rightarrow> 'f schemaObj" where
  "setValueSchema vs v = MapSchema (entrySchemas v) vs (keySchema v) (requiredCombs v)"

definition setKeySchema :: "iface option \<Rightarrow> 'f schemaObj \<Rightarrow> 'f schemaObj" where
  "setKeySchema ks v = MapSchema (entrySchemas v) (valueSchema v) ks (requiredCombs v)"

definition setRequiredCombs :: "string list list \<Rightarrow> 'f schemaObj \<Rightarrow> 'f schemaObj" where
  "setRequiredCombs rc v = MapSchema (entrySchemas v) (valueSchema v) (keySchema v) rc"

definition mapSchema_parseRequired :: "'f heap \<Rightarrow> nat \<Rightarrow> jtree \<Rightarrow> error + 'f heap" where
  "mapSchema_parseRequired h a rawRequired =
     (case parseRequired rawRequired of
        Inl err \<Rightarrow> Inl err
      | Inr combs \<Rightarrow>
         (let h1 = heapUpdate h a (setRequiredCombs combs)
          in case heapGet h1 a of
               None \<Rightarrow> Inl NilDereference
             | Some v \<Rightarrow>
                 (case checkRequiredEntries (entrySchemas v) (requiredCombs v) of
                    Inl err \<Rightarrow> Inl err
                  | Inr u \<Rightarrow> Inr h1)))"

text \<open>Lines 142 to 162 of \<^verbatim>\<open>parse\<close>: the name of the type, and the definition
  when it is an object.\<close>

definition typeOf :: "jtree \<Rightarrow> error + string \<times> gomap option" where
  \<open>typeOf raw =
     (case unmarshalMap raw of
        Inl err \<Rightarrow>
          if \<not> isUnmarshalTypeError err
          then Inl (Errorf ''cannot parse aspect schema: %w'' [E err])
          else (case unmarshalString raw of
                  Inl err' \<Rightarrow> Inl (Errorf ''cannot parse aspect schema: types constraint must be expressed as maps or strings: %w'' [E err'])
                | Inr typ \<Rightarrow> Inr (typ, None))
      | Inr schemaDef \<Rightarrow>
          (case map_of (orEmpty schemaDef) ''type'' of
             None \<Rightarrow> Inr (''map'', schemaDef)
           | Some rawType \<Rightarrow>
               (case unmarshalString rawType of
                  Inl err \<Rightarrow> Inl (Errorf ''cannot parse "type" constraint in type definition: %w'' [E err])
                | Inr typ \<Rightarrow> Inr (typ, schemaDef))))\<close>


subsection \<open>The recursive descent\<close>

text \<open>A bound on the sizes of the values of a map, for the termination of the descent.\<close>

definition mapBound :: "(string \<times> jtree) list \<Rightarrow> nat" where
  "mapBound m = Max (insert 0 ((\<lambda>kv. size (snd kv)) ` set m))"

lemma mapBound_ge: "(k, v) \<in> set m \<Longrightarrow> size v \<le> mapBound m"
  unfolding mapBound_def by (rule Max_ge) force+

lemma mapBound_map_of: "map_of m k = Some v \<Longrightarrow> size v \<le> mapBound m"
  by (rule mapBound_ge) (erule map_of_SomeD)

lemma mapBound_less: "0 < n \<Longrightarrow> (\<And>k v. (k, v) \<in> set m \<Longrightarrow> size v < n) \<Longrightarrow> mapBound m < n"
  unfolding mapBound_def by (subst Max_less_iff) auto

lemma mapBound_tl: "mapBound rest \<le> mapBound (kv # rest)"
  unfolding mapBound_def by (rule Max_mono) auto

lemma unmarshalMap_bound: "unmarshalMap raw = Inr (Some m) \<Longrightarrow> mapBound m < size raw"
proof (cases raw)
  case (JObject bs kvs)
  assume "unmarshalMap raw = Inr (Some m)"
  with JObject have m: "m = toMap kvs" by auto
  show ?thesis
  proof (rule mapBound_less)
    show "0 < size raw" by (simp add: JObject)
  next
    fix k v assume "(k, v) \<in> set m"
    with toMap_subset [of kvs] m have "(k, v) \<in> set kvs" by auto
    then show "size v < size raw" unfolding JObject by (rule size_member)
  qed
qed auto

lemma mapBound_rangeMap: "mapBound (rangeMap env m) \<le> mapBound m"
  unfolding mapBound_def using rangeMap_subset [of env m] by (intro Max_mono) auto

lemma unmarshalMap_entries_bound:
  "unmarshalMap raw = Inr m \<Longrightarrow> mapBound (rangeMap env (orEmpty m)) \<le> size raw"
proof (cases m)
  case None
  then show ?thesis by (simp add: orEmpty_def rangeMap_def mapBound_def)
next
  case (Some kvs)
  assume "unmarshalMap raw = Inr m"
  with Some have "mapBound kvs < size raw" by (simp add: unmarshalMap_bound)
  with mapBound_rangeMap [of env kvs] Some show ?thesis by (simp add: orEmpty_def)
qed

lemma typeOf_bound: "typeOf raw = Inr (typ, Some constraints) \<Longrightarrow> mapBound constraints < size raw"
  by (auto simp: typeOf_def unmarshalMap_bound split: sum.splits if_splits option.splits)

lemma entries_bound:
  "map_of c k = Some rawEntries \<Longrightarrow> unmarshalMap rawEntries = Inr entries \<Longrightarrow>
   mapBound (rangeMap env (orEmpty entries)) \<le> mapBound c"
  by (meson order_trans unmarshalMap_entries_bound mapBound_map_of)

function parse :: "'f env \<Rightarrow> userTypeTable \<Rightarrow> 'f heap \<Rightarrow> jtree \<Rightarrow> error + 'f heap \<times> iface"
  and parseConstraints :: "'f env \<Rightarrow> userTypeTable \<Rightarrow> 'f heap \<Rightarrow> iface \<Rightarrow> gomap \<Rightarrow> error + 'f heap"
  and mapSchema_parseConstraints :: "'f env \<Rightarrow> userTypeTable \<Rightarrow> 'f heap \<Rightarrow> nat \<Rightarrow> gomap \<Rightarrow> error + 'f heap"
  and parseEntries :: "'f env \<Rightarrow> userTypeTable \<Rightarrow> 'f heap \<Rightarrow> nat \<Rightarrow> (string \<times> jtree) list \<Rightarrow> error + 'f heap"
  and arraySchema_parseConstraints :: "'f env \<Rightarrow> userTypeTable \<Rightarrow> 'f heap \<Rightarrow> nat \<Rightarrow> gomap \<Rightarrow> error + 'f heap"
where
  \<open>parse env ut h raw =
     (case typeOf raw of
        Inl err \<Rightarrow> Inl err
      | Inr (typ, schemaDef) \<Rightarrow>
          (case newTypeSchema ut h typ of
             Inl err \<Rightarrow> Inl err
           | Inr (h1, schema) \<Rightarrow>
               (case schemaDef of
                  Some constraints \<Rightarrow>
                    (case parseConstraints env ut h1 schema constraints of
                       Inl err \<Rightarrow> Inl err
                     | Inr h2 \<Rightarrow> Inr (h2, schema))
                | None \<Rightarrow>
                    if expectsConstraints h1 schema
                    then Inl (Errorf ''cannot parse %q: must be schema definition with constraints'' [S typ])
                    else Inr (h1, schema))))\<close>
| \<open>parseConstraints env ut h (UserTypeRef p sb) constraints = parseConstraints env ut h p constraints\<close>
| \<open>parseConstraints env ut h (Ptr a) constraints =
     (case heapGet h a of
        None \<Rightarrow> Inl NilDereference
      | Some v \<Rightarrow>
          (case v of
             MapSchema es vs ks rc \<Rightarrow> mapSchema_parseConstraints env ut h a constraints
           | StringSchema pat chs \<Rightarrow>
               (case stringSchema_parseConstraints env v constraints of
                  Inl err \<Rightarrow> Inl err
                | Inr v' \<Rightarrow> Inr (h[a := v']))
           | IntSchema mn mx chs \<Rightarrow>
               (case intSchema_parseConstraints v constraints of
                  Inl err \<Rightarrow> Inl err
                | Inr v' \<Rightarrow> Inr (h[a := v']))
           | AnySchema \<Rightarrow> Inr h
           | NumberSchema mn mx chs \<Rightarrow>
               (case numberSchema_parseConstraints env v constraints of
                  Inl err \<Rightarrow> Inl err
                | Inr v' \<Rightarrow> Inr (h[a := v']))
           | BooleanSchema \<Rightarrow> Inr h
           | ArraySchema et uq \<Rightarrow> arraySchema_parseConstraints env ut h a constraints))\<close>
| \<open>mapSchema_parseConstraints env ut h a constraints =
     (case checkExclusiveMapConstraints constraints of
        Inl err \<Rightarrow> Inl (Errorf ''cannot parse map: %w'' [E err])
      | Inr u \<Rightarrow>
         (case map_of constraints ''schema'' of
            Some rawEntries \<Rightarrow>
              (case unmarshalMap rawEntries of
                 Inl err \<Rightarrow> Inl (Errorf ''cannot parse map's "schema" constraint: %v'' [E err])
               | Inr entries \<Rightarrow>
                  (case validMapKeys env (orEmpty entries) of
                     Inl err \<Rightarrow> Inl (Errorf ''cannot parse map: %w'' [E err])
                   | Inr u \<Rightarrow>
                      (case parseEntries env ut (heapUpdate h a (setEntrySchemas (Some []))) a
                              (rangeMap env (orEmpty entries)) of
                         Inl err \<Rightarrow> Inl err
                       | Inr h1 \<Rightarrow>
                          (case map_of constraints ''required'' of
                             None \<Rightarrow> Inr h1
                           | Some rawRequired \<Rightarrow> mapSchema_parseRequired h1 a rawRequired))))
          | None \<Rightarrow>
             (case (case map_of constraints ''keys'' of
                      None \<Rightarrow> Inr h
                    | Some rawKeyDef \<Rightarrow>
                        (case parseMapKeyType env ut h rawKeyDef of
                           Inl err \<Rightarrow> Inl (Errorf ''cannot parse "keys" constraint: %w'' [E err])
                         | Inr (h', keyS) \<Rightarrow> Inr (heapUpdate h' a (setKeySchema (Some keyS))))) of
                Inl err \<Rightarrow> Inl err
              | Inr h1 \<Rightarrow>
                 (case (case map_of constraints ''values'' of
                          None \<Rightarrow> Inr h1
                        | Some rawValuesDef \<Rightarrow>
                            (case parse env ut h1 rawValuesDef of
                               Inl err \<Rightarrow> Inl err
                             | Inr (h2, valS) \<Rightarrow> Inr (heapUpdate h2 a (setValueSchema (Some valS))))) of
                    Inl err \<Rightarrow> Inl err
                  | Inr h3 \<Rightarrow>
                     (case heapGet h3 a of
                        None \<Rightarrow> Inl NilDereference
                      | Some v \<Rightarrow>
                          if entrySchemas v = None \<and> keySchema v = None \<and> valueSchema v = None
                          then Inl (Errorf ''cannot parse map: must have "schema" or "keys"/"values" constraint'' [])
                          else Inr h3)))))\<close>
| \<open>parseEntries env ut h a [] = Inr h\<close>
| \<open>parseEntries env ut h a (kv # rest) =
     (case parse env ut h (snd kv) of
        Inl err \<Rightarrow> Inl err
      | Inr (h1, entrySchema) \<Rightarrow>
         (case heapGet h1 a of
            None \<Rightarrow> Inl NilDereference
          | Some v \<Rightarrow>
             (case entrySchemas v of
                None \<Rightarrow> Inl NilDereference
              | Some es \<Rightarrow>
                  parseEntries env ut
                    (h1[a := setEntrySchemas (Some (AList.update (fst kv) entrySchema es)) v]) a rest)))\<close>
| \<open>arraySchema_parseConstraints env ut h a constraints =
     (case map_of constraints ''values'' of
        None \<Rightarrow> Inl (Errorf ''cannot parse "array": must have "values" constraint'' [])
      | Some rawValues \<Rightarrow>
         (case parse env ut h rawValues of
            Inl err \<Rightarrow> Inl (Errorf ''cannot parse "array" values type: %v'' [E err])
          | Inr (h1, typ) \<Rightarrow>
             (case heapGet h1 a of
                None \<Rightarrow> Inl NilDereference
              | Some v \<Rightarrow>
                 (let h2 = h1[a := ArraySchema (Some typ) (unique v)]
                  in case map_of constraints ''unique'' of
                       None \<Rightarrow> Inr h2
                     | Some rawUnique \<Rightarrow>
                         (case unmarshalBool rawUnique of
                            Inl err \<Rightarrow> Inl (Errorf ''cannot parse array's "unique" constraint: %v'' [E err])
                          | Inr uq \<Rightarrow> Inr (h2[a := ArraySchema (Some typ) uq]))))))\<close>
  by pat_completeness auto
termination
  apply (relation "measures
   [\<lambda>x. case x of
           Inl (Inl (env, ut, h, raw)) \<Rightarrow> size raw
         | Inl (Inr (env, ut, h, i, c)) \<Rightarrow> mapBound c
         | Inr (Inl (env, ut, h, a, c)) \<Rightarrow> mapBound c
         | Inr (Inr (Inl (env, ut, h, a, kvs))) \<Rightarrow> mapBound kvs
         | Inr (Inr (Inr (env, ut, h, a, c))) \<Rightarrow> mapBound c,
    \<lambda>x. case x of
           Inl (Inl _) \<Rightarrow> 0
         | Inl (Inr _) \<Rightarrow> 3
         | Inr (Inl _) \<Rightarrow> 2
         | Inr (Inr (Inl _)) \<Rightarrow> 1
         | Inr (Inr (Inr _)) \<Rightarrow> 2,
    \<lambda>x. case x of
           Inl (Inl _) \<Rightarrow> 0
         | Inl (Inr (env, ut, h, i, c)) \<Rightarrow> size i
         | Inr (Inl _) \<Rightarrow> 0
         | Inr (Inr (Inl (env, ut, h, a, kvs))) \<Rightarrow> length kvs
         | Inr (Inr (Inr _)) \<Rightarrow> 0]")
           apply simp_all
  subgoal by (auto dest: typeOf_bound)
  subgoal by (unfold le_less [symmetric]) (erule mapBound_map_of)
  subgoal by (unfold le_less [symmetric]) (erule (1) entries_bound)
  subgoal for kv rest by (unfold le_less [symmetric]) (rule mapBound_ge [of "fst kv"], simp)
  subgoal by (unfold le_less [symmetric]) (rule mapBound_tl)
  subgoal by (unfold le_less [symmetric]) (erule mapBound_map_of)
  done

text \<open>The equations of the descent are unfolded on demand only.\<close>

declare parse.simps [simp del] parseConstraints.simps [simp del]
  mapSchema_parseConstraints.simps [simp del] parseEntries.simps [simp del]
  arraySchema_parseConstraints.simps [simp del]

subsection \<open>The entry point\<close>

text \<open>The loop of \<^verbatim>\<open>ParseSchema\<close> over the user-defined types, in the order the
  \<^verbatim>\<open>range\<close> statement visits them: each definition is parsed with the table as
  the types before it left it.\<close>

fun parseUserTypes ::
  "'f env \<Rightarrow> userTypeTable \<Rightarrow> 'f heap \<Rightarrow> (string \<times> jtree) list \<Rightarrow> error + userTypeTable \<times> 'f heap" where
  \<open>parseUserTypes env ut h [] = Inr (ut, h)\<close>
| \<open>parseUserTypes env ut h ((userTypeName, typeDef) # rest) =
     (if \<not> validUserType userTypeName
      then Inl (Errorf ''cannot parse user-defined type name %q: must match %s'' [S userTypeName, S ''validUserType''])
      else (case parse env ut h typeDef of
              Inl err \<Rightarrow> Inl (Errorf ''cannot parse user-defined type %q: %w'' [S userTypeName, E err])
            | Inr (h1, userTypeSchema) \<Rightarrow>
                parseUserTypes env
                  (AList.update userTypeName (newUserTypeRefParser h1 userTypeSchema) ut) h1 rest))\<close>

text \<open>\<^verbatim>\<open>ParseSchema\<close> on the decoded bytes.\<close>

definition ParseSchemaTree :: "'f env \<Rightarrow> jtree \<Rightarrow> error + 'f StorageSchema" where
  \<open>ParseSchemaTree env raw =
     (case unmarshalMap raw of
        Inl err \<Rightarrow> Inl (Errorf ''cannot parse top level schema as map: %w'' [E err])
      | Inr schemaDef \<Rightarrow>
         (case (case map_of (orEmpty schemaDef) ''type'' of
                  None \<Rightarrow> Inr ()
                | Some rawType \<Rightarrow>
                    (case unmarshalString rawType of
                       Inl err \<Rightarrow> Inl (Errorf ''cannot parse top level schema's "type" entry: %w'' [E err])
                     | Inr typ \<Rightarrow>
                         if typ \<noteq> ''map''
                         then Inl (Errorf ''cannot parse top level schema: unexpected declared type %q, should be "map" or omitted'' [S typ])
                         else Inr ())) of
            Inl err \<Rightarrow> Inl err
          | Inr u \<Rightarrow>
             if map_of (orEmpty schemaDef) ''schema'' = None
             then Inl (Errorf ''cannot parse top level schema: must have a "schema" constraint'' [])
             else (case (case map_of (orEmpty schemaDef) ''types'' of
                           None \<Rightarrow> Inr ([], [])
                         | Some val \<Rightarrow>
                             (case unmarshalMap val of
                                Inl err \<Rightarrow> Inl (Errorf ''cannot parse user-defined types map: %w'' [E err])
                              | Inr types \<Rightarrow>
                                  parseUserTypes env [] [] (rangeMap env (orEmpty types)))) of
                     Inl err \<Rightarrow> Inl err
                   | Inr (ut, h) \<Rightarrow>
                      (case parse env ut h raw of
                         Inl err \<Rightarrow> Inl err
                       | Inr (h1, topS) \<Rightarrow> Inr \<lparr>heap = h1, topLevel = topS, userTypes = ut\<rparr>))))\<close>

definition ParseSchema :: "'f env \<Rightarrow> string \<Rightarrow> error + 'f StorageSchema" where
  \<open>ParseSchema env raw =
     (case decode raw of
        None \<Rightarrow> Inl (Errorf ''cannot parse top level schema as map: %w'' [E SyntaxError])
      | Some t \<Rightarrow> ParseSchemaTree env t)\<close>

text \<open>\<^verbatim>\<open>StorageSchema.Validate\<close>: bytes that are not JSON are refused by the first
  \<^verbatim>\<open>json.Unmarshal\<close> of whatever node is at the top.\<close>

definition StorageSchema_Validate :: "'f env \<Rightarrow> 'f StorageSchema \<Rightarrow> string \<Rightarrow> error + unit" where
  "StorageSchema_Validate env s raw =
     (case decode raw of
        None \<Rightarrow> Inl (validationErrorFrom SyntaxError)
      | Some t \<Rightarrow> Validate env (heap s) (topLevel s) t)"

section \<open>Rendering a validation error\<close>

text \<open>The string the \<^verbatim>\<open>strings.Builder\<close> of \<^verbatim>\<open>ValidationError.Error\<close> holds
  after the loop over the path, from part \<open>i\<close> on.\<close>

fun writePath :: "nat \<Rightarrow> pathElem list \<Rightarrow> string" where
  "writePath i [] = []"
| "writePath i (Key v # rest) = (if i > 0 then ''.'' else []) @ v @ writePath (i + 1) rest"
| "writePath i (Idx v # rest) = ''['' @ showNat v @ '']'' @ writePath (i + 1) rest"

text \<open>\<^verbatim>\<open>fmt.Sprintf\<close> is kept as the format string with its arguments.\<close>

datatype message = Lit string | Sprintf string "msgArg list"
and msgArg = MS string | MM message | ME error

definition ValidationError_Error :: "error \<Rightarrow> message" where
  \<open>ValidationError_Error v =
     (let msg = (if length (Path v) = 0 then Lit ''cannot accept top level element''
                 else Sprintf ''cannot accept element in %q'' [MS (writePath 0 (Path v))])
      in Sprintf ''%s: %v'' [MM msg, ME (Err v)])\<close>

section \<open>Running the examples\<close>

text \<open>
  An environment for the concrete schemas and documents below: it is given the key
  grammar and the iteration order of maps; every pattern compiles and matches, and the
  numbers are the integer literals.
\<close>

definition lowerKeys :: "string \<Rightarrow> bool" where
  "lowerKeys k \<longleftrightarrow> k \<noteq> [] \<and> list_all (\<lambda>c. isLower c \<or> isDigit c \<or> c = CHR ''-'') k"

definition exampleEnv :: "(string \<Rightarrow> bool) \<Rightarrow> (string list \<Rightarrow> string list) \<Rightarrow> int env" where
  "exampleEnv keyOk order =
     \<lparr>validSubkey = keyOk,
      regexpCompile = (\<lambda>p. True),
      regexpMatch = (\<lambda>p s. True),
      parseFloat = parseInt64,
      floatZero = 0,
      floatLess = (<),
      floatEq = (=),
      formatFloat = showInt,
      mapOrder = order\<rparr>"

text \<open>Compiling a schema and validating a document against it.\<close>

datatype outcome = CompileError error | Rejected error | Accepted

definition run :: "'f env \<Rightarrow> string \<Rightarrow> string \<Rightarrow> outcome" where
  "run env schema doc =
     (case ParseSchema env schema of
        Inl err \<Rightarrow> CompileError err
      | Inr s \<Rightarrow>
         (case StorageSchema_Validate env s doc of
            Inl err \<Rightarrow> Rejected err
          | Inr u \<Rightarrow> Accepted))"

text \<open>The equations that evaluate the definitions on concrete input.\<close>

named_theorems eval

lemmas [eval] = decode_def skipSpace_def isSpace_def isDigit_def consumed_def maxNestingDepth_def
  scanNumber_def scanInt_def scanFrac_def scanExp_def scanDigits_def getu4_def hexVal_def simpleEscape_def
  utf8enc_def utf8width_def isCont_def toMap_def orEmpty_def parseInt64_def digitsVal_def
  rangeMap_def unmarshalAny_def heapGet_def validationErrorFrom_def validationErrorf_def deferWrap_def
  stringSchema_Validate_def intSchema_Validate_def anySchema_Validate_def numberSchema_Validate_def
  booleanSchema_Validate_def validateNumber_def validMapKeys_def mapSchema_checks_def prependPath_def
  marshalString_def arraySchema_decode_def newUserTypeRefParser_def getUserType_def alloc_def
  newTypeSchema_def stringSchema_parseConstraints_def intSchema_parseConstraints_def
  numberSchema_parseConstraints_def stringSchema_choices_def stringSchema_pattern_def
  intSchema_choices_def intSchema_min_def intSchema_max_def intSchema_bounds_def
  numberSchema_choices_def numberSchema_min_def numberSchema_max_def numberSchema_bounds_def
  checkExclusiveMapConstraints_def parseMapKeyType_def
  parseRequired_def checkRequiredEntries_def heapUpdate_def setEntrySchemas_def setValueSchema_def
  setKeySchema_def setRequiredCombs_def mapSchema_parseRequired_def typeOf_def ParseSchemaTree_def
  ParseSchema_def StorageSchema_Validate_def validUserType_def isLower_def lowerKeys_def
  exampleEnv_def run_def parse.simps parseConstraints.simps mapSchema_parseConstraints.simps
  parseEntries.simps arraySchema_parseConstraints.simps

section \<open>Loops\<close>

lemma forEach_Inr: "forEach f xs = Inr () \<longleftrightarrow> (\<forall>x \<in> set xs. f x = Inr ())"
  by (induction xs) (auto split: sum.splits)

lemma forEach_Inl: "forEach f xs = Inl e \<Longrightarrow> \<exists>x \<in> set xs. f x = Inl e"
  by (induction xs) (auto split: sum.splits)

lemma forEach_first:
  "\<forall>x \<in> set pre. f x = Inr () \<Longrightarrow> f x = Inl e \<Longrightarrow> forEach f (pre @ x # post) = Inl e"
  by (induction pre) auto

lemma validMapKeys_err:
  "validMapKeys env m = Inl e \<Longrightarrow> \<exists>k. e = Errorf ''key %q doesn't conform to required format'' [S k]"
  by (auto simp: validMapKeys_def dest!: forEach_Inl split: if_splits)

lemma Validate_map:
  assumes "heapGet h a = Some (MapSchema es vs ks rc)"
  shows "mapSchema_checks env (MapSchema es vs ks rc) raw = Inl e \<Longrightarrow> Validate env h (Ptr a) raw = Inl e"
  using assms by simp

section \<open>The required-keys check\<close>

lemma keyMissing_iff: "keyMissing m ks \<longleftrightarrow> (\<exists>k \<in> set ks. map_of m k = None)"
  by (induction ks) auto

lemma requiredLoop_True: "requiredLoop m True combs \<longleftrightarrow> (\<forall>comb \<in> set combs. keyMissing m comb)"
  by (induction combs) auto

lemma requiredLoop_False:
  "requiredLoop m False combs \<longleftrightarrow> combs \<noteq> [] \<and> (\<forall>comb \<in> set combs. keyMissing m comb)"
  by (cases combs) (auto simp: requiredLoop_True)

text \<open>The error of line 278, and what the claim calls a key-set fully present in a
  document.\<close>

definition requiredError :: error where
  "requiredError = validationErrorf ''cannot find required combinations of keys'' []"

definition fullyPresent :: "gomap \<Rightarrow> string list \<Rightarrow> bool" where
  "fullyPresent m comb \<longleftrightarrow> (\<forall>k \<in> set comb. map_of m k \<noteq> None)"

text \<open>
  Claim C3. For a map node in the exact-schema shape (\<^verbatim>\<open>entrySchemas\<close> is set) and a
  document that is a JSON object with members \<open>m\<close>: the loop of lines 261 to 275 leaves
  \<^verbatim>\<open>missing\<close> false if and only if \<^verbatim>\<open>requiredCombs\<close> is empty or one of its
  key-sets is fully present in the document. When \<^verbatim>\<open>requiredCombs\<close> is not empty and
  every key-set lacks a key, \<^verbatim>\<open>Validate\<close> returns a validation error, and that error is
  the required-keys error whenever the checks made before (the key grammar, the unexpected
  keys) pass; \<^verbatim>\<open>Validate\<close> returns the required-keys error in no other case.
\<close>

theorem required_keys_check:
  assumes obj: "heapGet h a = Some (MapSchema (Some entries) vs ks rc)"
    and doc: "unmarshalMap raw = Inr (Some m)"
  shows "(\<not> requiredLoop m False rc \<longleftrightarrow> rc = [] \<or> (\<exists>comb \<in> set rc. fullyPresent m comb))
    \<and> (rc \<noteq> [] \<and> (\<forall>comb \<in> set rc. \<not> fullyPresent m comb) \<longrightarrow>
          (\<exists>err. Validate env h (Ptr a) raw = Inl (ValidationError [] err))
        \<and> (validMapKeys env m = Inr () \<and> (\<forall>k \<in> fst ` set (rangeMap env m). map_of entries k \<noteq> None)
             \<longrightarrow> Validate env h (Ptr a) raw = Inl requiredError))
    \<and> (Validate env h (Ptr a) raw = Inl requiredError \<longrightarrow>
          rc \<noteq> [] \<and> (\<forall>comb \<in> set rc. \<not> fullyPresent m comb))"
proof (intro conjI impI)
  show iff: "\<not> requiredLoop m False rc \<longleftrightarrow> rc = [] \<or> (\<exists>comb \<in> set rc. fullyPresent m comb)"
    by (auto simp: requiredLoop_False keyMissing_iff fullyPresent_def)
  let ?v = "MapSchema (Some entries) vs ks rc"
  let ?unexp = "forEach (\<lambda>(key, x). if map_of entries key = None
                               then Inl (validationErrorf ''map contains unexpected key %q'' [S key])
                               else Inr ())
                            (rangeMap env m)"
  have F1: "mapSchema_checks env ?v raw = Inl (validationErrorFrom e)"
    if "validMapKeys env m = Inl e" for e
    using doc that by (simp add: mapSchema_checks_def)
  have F2: "mapSchema_checks env ?v raw = Inl e"
    if "validMapKeys env m = Inr u" "?unexp = Inl e" for u e
    using doc that by (simp add: mapSchema_checks_def)
  have F3: "mapSchema_checks env ?v raw = (if requiredLoop m False rc then Inl requiredError else Inr m)"
    if "validMapKeys env m = Inr u" "?unexp = Inr u'" for u u'
    using doc that by (simp add: mapSchema_checks_def requiredError_def)
  {
    assume miss: "rc \<noteq> [] \<and> (\<forall>comb \<in> set rc. \<not> fullyPresent m comb)"
    with iff have loop: "requiredLoop m False rc" by blast
    have "\<exists>err. mapSchema_checks env ?v raw = Inl (ValidationError [] err)"
    proof (cases "validMapKeys env m")
      case (Inl e)
      then show ?thesis by (simp add: F1 validationErrorFrom_def)
    next
      case (Inr u)
      show ?thesis
      proof (cases ?unexp)
        case (Inl e)
        from forEach_Inl [OF this] obtain k where "e = validationErrorf ''map contains unexpected key %q'' [S k]"
          by (auto split: if_splits)
        with F2 [OF Inr Inl] show ?thesis by (simp add: validationErrorf_def)
      next
        case (Inr u')
        with F3 [OF \<open>validMapKeys env m = Inr u\<close> Inr] loop show ?thesis
          by (simp add: requiredError_def validationErrorf_def)
      qed
    qed
    then show "\<exists>err. Validate env h (Ptr a) raw = Inl (ValidationError [] err)"
      using Validate_map [OF obj] by blast
  }
  {
    assume miss: "rc \<noteq> [] \<and> (\<forall>comb \<in> set rc. \<not> fullyPresent m comb)"
      and ok: "validMapKeys env m = Inr () \<and> (\<forall>k \<in> fst ` set (rangeMap env m). map_of entries k \<noteq> None)"
    with iff have loop: "requiredLoop m False rc" by blast
    from ok have "?unexp = Inr ()"
      by (subst forEach_Inr) force
    with ok loop F3 [of "()" "()"] have "mapSchema_checks env ?v raw = Inl requiredError"
      by simp
    then show "Validate env h (Ptr a) raw = Inl requiredError"
      by (rule Validate_map [OF obj])
  }
  {
    assume err: "Validate env h (Ptr a) raw = Inl requiredError"
    have "requiredLoop m False rc"
    proof (rule ccontr)
      assume no: "\<not> requiredLoop m False rc"
      show False
      proof (cases "mapSchema_checks env ?v raw")
        case (Inl e)
        with err obj have e: "e = requiredError" by simp
        show False
        proof (cases "validMapKeys env m")
          case (Inl e')
          from F1 [OF this] \<open>mapSchema_checks env ?v raw = Inl e\<close> validMapKeys_err [OF Inl] show False
            by (auto simp: e requiredError_def validationErrorf_def validationErrorFrom_def)
        next
          case (Inr u)
          show False
          proof (cases ?unexp)
            case (Inl e')
            from forEach_Inl [OF this] obtain k where "e' = validationErrorf ''map contains unexpected key %q'' [S k]"
              by (auto split: if_splits)
            with F2 [OF Inr Inl] \<open>mapSchema_checks env ?v raw = Inl e\<close> show False
              by (simp add: e requiredError_def validationErrorf_def)
          next
            case (Inr u')
            from F3 [OF \<open>validMapKeys env m = Inr u\<close> Inr] no \<open>mapSchema_checks env ?v raw = Inl e\<close>
            show False by simp
          qed
        qed
      next
        case (Inr m')
        with err obj have "forEach (\<lambda>(key, val). case map_of entries key of
                                     None \<Rightarrow> Inr ()
                                   | Some validator \<Rightarrow>
                                       prependPath (Key key) (Validate env h validator val))
                                (rangeMap env m') = Inl requiredError"
          by simp
        from forEach_Inl [OF this] show False
          by (auto simp: prependPath_def requiredError_def validationErrorf_def
                split: option.splits sum.splits error.splits)
      qed
    qed
    with iff show "rc \<noteq> []" by auto
    from \<open>requiredLoop m False rc\<close> iff show "\<forall>comb \<in> set rc. \<not> fullyPresent m comb" by auto
  }
qed

text \<open>The theorem at the map of the spec's example, \<^verbatim>\<open>requiredCombs=[["A"],["B","C"]]\<close>,
  and the four documents of the example against the compiled schema.\<close>

theorem required_keys_check_witness:
  \<open>heapGet ([AnySchema, MapSchema (Some [(''A'', Ptr 0), (''B'', Ptr 0), (''C'', Ptr 0)]) None None [[''A''], [''B'', ''C'']]] :: int heap) 1
      = Some (MapSchema (Some [(''A'', Ptr 0), (''B'', Ptr 0), (''C'', Ptr 0)]) None None [[''A''], [''B'', ''C'']])
   \<and> unmarshalMap (JObject ''{"B":1}'' [(''B'', JNumber ''1'')]) = Inr (Some [(''B'', JNumber ''1'')])
   \<and> Validate (exampleEnv (\<lambda>k. True) id)
        [AnySchema, MapSchema (Some [(''A'', Ptr 0), (''B'', Ptr 0), (''C'', Ptr 0)]) None None [[''A''], [''B'', ''C'']]]
        (Ptr 1) (JObject ''{"B":1}'' [(''B'', JNumber ''1'')]) = Inl requiredError
   \<and> run (exampleEnv (\<lambda>k. True) id)
        ''{"schema":{"A":"any","B":"any","C":"any"},"required":[["A"],["B","C"]]}'' ''{"A":1}'' = Accepted
   \<and> run (exampleEnv (\<lambda>k. True) id)
        ''{"schema":{"A":"any","B":"any","C":"any"},"required":[["A"],["B","C"]]}'' ''{"B":1,"C":1}'' = Accepted
   \<and> run (exampleEnv (\<lambda>k. True) id)
        ''{"schema":{"A":"any","B":"any","C":"any"},"required":[["A"],["B","C"]]}'' ''{"B":1}'' = Rejected requiredError
   \<and> run (exampleEnv (\<lambda>k. True) id)
        ''{"schema":{"A":"any","B":"any","C":"any"},"required":[["A"],["B","C"]]}'' ''{}'' = Rejected requiredError\<close>
proof -
  let ?h = "[AnySchema, MapSchema (Some [(''A'', Ptr 0), (''B'', Ptr 0), (''C'', Ptr 0)]) None None [[''A''], [''B'', ''C'']]] :: int heap"
  let ?env = "exampleEnv (\<lambda>k. True) id"
  have obj: "heapGet ?h 1 = Some (MapSchema (Some [(''A'', Ptr 0), (''B'', Ptr 0), (''C'', Ptr 0)]) None None [[''A''], [''B'', ''C'']])"
    by (simp add: heapGet_def)
  have doc: \<open>unmarshalMap (JObject ''{"B":1}'' [(''B'', JNumber ''1'')]) = Inr (Some [(''B'', JNumber ''1'')])\<close>
    by (simp add: toMap_def)
  have pre: "validMapKeys ?env [(''B'', JNumber ''1'')] = Inr ()
     \<and> (\<forall>k \<in> fst ` set (rangeMap ?env [(''B'', JNumber ''1'')]).
           map_of [(''A'', Ptr 0), (''B'', Ptr 0), (''C'', Ptr 0)] k \<noteq> None)"
    by (simp add: eval)
  have miss: "[[''A''], [''B'', ''C'']] \<noteq> []
     \<and> (\<forall>comb \<in> set [[''A''], [''B'', ''C'']]. \<not> fullyPresent [(''B'', JNumber ''1'')] comb)"
    by (simp add: fullyPresent_def)
  from required_keys_check [OF obj doc, of ?env] pre miss
  have v: \<open>Validate ?env ?h (Ptr 1) (JObject ''{"B":1}'' [(''B'', JNumber ''1'')]) = Inl requiredError\<close>
    by blast
  have r1: \<open>run ?env ''{"schema":{"A":"any","B":"any","C":"any"},"required":[["A"],["B","C"]]}'' ''{"A":1}'' = Accepted\<close>
    by (simp add: eval)
  have r2: \<open>run ?env ''{"schema":{"A":"any","B":"any","C":"any"},"required":[["A"],["B","C"]]}'' ''{"B":1,"C":1}'' = Accepted\<close>
    by (simp add: eval)
  have r3: \<open>run ?env ''{"schema":{"A":"any","B":"any","C":"any"},"required":[["A"],["B","C"]]}'' ''{"B":1}'' = Rejected requiredError\<close>
    by (simp add: eval requiredError_def)
  have r4: \<open>run ?env ''{"schema":{"A":"any","B":"any","C":"any"},"required":[["A"],["B","C"]]}'' ''{}'' = Rejected requiredError\<close>
    by (simp add: eval requiredError_def)
  show ?thesis by (intro conjI obj doc v r1 r2 r3 r4)
qed

section \<open>Empty alternatives of the required keys\<close>

lemma forEach_removeAll:
  "f z = Inr () \<Longrightarrow> forEach f (removeAll z xs) = forEach f xs"
  by (induction xs) (auto split: sum.splits)

text \<open>
  Claim C9. When one of the alternatives of \<^verbatim>\<open>"required"\<close> is the empty key-set:
  the check of lines 386 to 392, that every required key has a schema entry, gives what
  it gives without the empty alternatives, so these never make the compilation fail;
  the loop of \<^verbatim>\<open>Validate\<close> leaves \<^verbatim>\<open>missing\<close> false for every document; and
  every JSON object whose keys pass the key grammar and are entries of the schema passes
  all the checks \<^verbatim>\<open>Validate\<close> makes before it descends into the values.
\<close>

theorem empty_required_alternative:
  assumes "[] \<in> set combs"
  shows "checkRequiredEntries es combs = checkRequiredEntries es (removeAll [] combs)
    \<and> (\<forall>m. \<not> requiredLoop m False combs)
    \<and> (\<forall>env v raw m. entrySchemas v = Some entries \<and> requiredCombs v = combs
          \<and> unmarshalMap raw = Inr (Some m) \<and> validMapKeys env m = Inr ()
          \<and> (\<forall>k \<in> fst ` set (rangeMap env m). map_of entries k \<noteq> None)
          \<longrightarrow> mapSchema_checks env v raw = Inr m)"
proof (intro conjI allI impI)
  show "checkRequiredEntries es combs = checkRequiredEntries es (removeAll [] combs)"
    unfolding checkRequiredEntries_def by (rule forEach_removeAll [symmetric]) simp
  show loop: "\<not> requiredLoop m False combs" for m
  proof
    assume "requiredLoop m False combs"
    then have "\<forall>comb \<in> set combs. keyMissing m comb"
      by (simp add: requiredLoop_False)
    with assms have "keyMissing m []" by blast
    then show False by simp
  qed
  fix env :: "'a env" and v :: "'a schemaObj" and raw m
  assume a: "entrySchemas v = Some entries \<and> requiredCombs v = combs
          \<and> unmarshalMap raw = Inr (Some m) \<and> validMapKeys env m = Inr ()
          \<and> (\<forall>k \<in> fst ` set (rangeMap env m). map_of entries k \<noteq> None)"
  then have "forEach (\<lambda>(key, x). if map_of entries key = None
                               then Inl (validationErrorf ''map contains unexpected key %q'' [S key])
                               else Inr ())
                            (rangeMap env m) = Inr ()"
    by (subst forEach_Inr) force
  with a loop [of m] show "mapSchema_checks env v raw = Inr m"
    by (simp add: mapSchema_checks_def)
qed

text \<open>The theorem at \<^verbatim>\<open>required=[["a"],[]]\<close>; the schema with this constraint compiles
  and accepts the empty object.\<close>

theorem empty_required_alternative_witness:
  \<open>[] \<in> set [[''a''], []]
   \<and> (\<forall>m. \<not> requiredLoop m False [[''a''], []])
   \<and> run (exampleEnv lowerKeys id) ''{"schema":{"a":"int"},"required":[["a"],[]]}'' ''{}'' = Accepted
   \<and> run (exampleEnv lowerKeys id) ''{"schema":{"a":"int"},"required":[["a"],[]]}'' ''{"a":1}'' = Accepted\<close>
proof -
  have m: "[] \<in> set [[''a''], []]" by simp
  have l: "\<forall>m. \<not> requiredLoop m False [[''a''], []]"
    using empty_required_alternative [OF m] by blast
  have r1: \<open>run (exampleEnv lowerKeys id) ''{"schema":{"a":"int"},"required":[["a"],[]]}'' ''{}'' = Accepted\<close>
    by (simp add: eval)
  have r2: \<open>run (exampleEnv lowerKeys id) ''{"schema":{"a":"int"},"required":[["a"],[]]}'' ''{"a":1}'' = Accepted\<close>
    by (simp add: eval)
  show ?thesis by (intro conjI m l r1 r2)
qed

section \<open>Arrays without duplicates\<close>

text \<open>The error of line 854.\<close>

definition duplicateError :: error where
  \<open>duplicateError = validationErrorf ''cannot accept duplicate values for array with "unique" constraint'' []\<close>

lemma uniqueLoop_distinct:
  "uniqueLoop valSet xs =
     (if distinct (map rawBytes xs) \<and> set (map rawBytes xs) \<inter> set valSet = {}
      then Inr () else Inl duplicateError)"
  by (induction xs arbitrary: valSet) (auto simp: Let_def duplicateError_def)

text \<open>
  Claim C5. For an array node with \<^verbatim>\<open>unique\<close> set and a document that is a JSON
  array all of whose elements validate against the element type: \<^verbatim>\<open>Validate\<close>
  returns the duplicate-values error if two elements (at different positions) have the
  same bytes, and accepts the document otherwise.
\<close>

theorem unique_array:
  assumes obj: "heapGet h a = Some (ArraySchema (Some t) True)"
    and doc: "unmarshalArray raw = Inr (Some xs)"
    and elems: "\<forall>x \<in> set xs. Validate env h t x = Inr ()"
  shows "Validate env h (Ptr a) raw =
           (if distinct (map rawBytes xs) then Inr () else Inl duplicateError)"
proof -
  have dec: "arraySchema_decode raw = Inr xs"
    using doc by (simp add: arraySchema_decode_def)
  have "forEach (\<lambda>(e, val). case Some t of
                                      None \<Rightarrow> Inl NilDereference
                                    | Some t \<Rightarrow> prependPath (Idx e) (Validate env h t val))
                (enumerate 0 xs) = Inr ()"
    using elems by (subst forEach_Inr) (auto simp: prependPath_def in_set_enumerate_eq)
  with obj dec show ?thesis
    by (simp add: uniqueLoop_distinct)
qed

text \<open>The theorem at the array \<^verbatim>\<open>[1,"1"]\<close> of the spec's example, for a unique array
  of \<^verbatim>\<open>any\<close>; then the three documents of the example, and a fourth whose two
  elements differ by a space only.\<close>

theorem unique_array_witness:
  \<open>heapGet ([AnySchema, ArraySchema (Some (Ptr 0)) True] :: int heap) 1 = Some (ArraySchema (Some (Ptr 0)) True)
   \<and> unmarshalArray (JArray ''[1,"1"]'' [JNumber ''1'', JString ''"1"'' ''1''])
        = Inr (Some [JNumber ''1'', JString ''"1"'' ''1''])
   \<and> Validate (exampleEnv lowerKeys id) [AnySchema, ArraySchema (Some (Ptr 0)) True] (Ptr 0)
        (JNumber ''1'') = Inr ()
   \<and> Validate (exampleEnv lowerKeys id) [AnySchema, ArraySchema (Some (Ptr 0)) True] (Ptr 0)
        (JString ''"1"'' ''1'') = Inr ()
   \<and> Validate (exampleEnv lowerKeys id) [AnySchema, ArraySchema (Some (Ptr 0)) True] (Ptr 1)
        (JArray ''[1,"1"]'' [JNumber ''1'', JString ''"1"'' ''1'']) = Inr ()
   \<and> map_option (Validate (exampleEnv lowerKeys id) [AnySchema, ArraySchema (Some (Ptr 0)) True] (Ptr 1))
        (decode ''[1,1]'') = Some (Inl duplicateError)
   \<and> map_option (Validate (exampleEnv lowerKeys id) [AnySchema, ArraySchema (Some (Ptr 0)) True] (Ptr 1))
        (decode ''[1,"1"]'') = Some (Inr ())
   \<and> map_option (Validate (exampleEnv lowerKeys id) [AnySchema, ArraySchema (Some (Ptr 0)) True] (Ptr 1))
        (decode ''[{"a":1},{"a":1}]'') = Some (Inl duplicateError)
   \<and> map_option (Validate (exampleEnv lowerKeys id) [AnySchema, ArraySchema (Some (Ptr 0)) True] (Ptr 1))
        (decode ''[{"a":1},{"a": 1}]'') = Some (Inr ())\<close>
proof -
  let ?h = "[AnySchema, ArraySchema (Some (Ptr 0)) True] :: int heap"
  let ?env = "exampleEnv lowerKeys id"
  have obj: "heapGet ?h 1 = Some (ArraySchema (Some (Ptr 0)) True)"
    by (simp add: heapGet_def)
  have doc: \<open>unmarshalArray (JArray ''[1,"1"]'' [JNumber ''1'', JString ''"1"'' ''1''])
        = Inr (Some [JNumber ''1'', JString ''"1"'' ''1''])\<close>
    by simp
  have e1: \<open>Validate ?env ?h (Ptr 0) (JNumber ''1'') = Inr ()\<close>
    by (simp add: eval)
  have e2: \<open>Validate ?env ?h (Ptr 0) (JString ''"1"'' ''1'') = Inr ()\<close>
    by (simp add: eval)
  have elems: \<open>\<forall>x \<in> set [JNumber ''1'', JString ''"1"'' ''1'']. Validate ?env ?h (Ptr 0) x = Inr ()\<close>
    using e1 e2 by simp
  have v: \<open>Validate ?env ?h (Ptr 1) (JArray ''[1,"1"]'' [JNumber ''1'', JString ''"1"'' ''1'']) = Inr ()\<close>
    using unique_array [OF obj doc elems] by simp
  have d1: \<open>map_option (Validate ?env ?h (Ptr 1)) (decode ''[1,1]'') = Some (Inl duplicateError)\<close>
    by (simp add: eval duplicateError_def)
  have d2: \<open>map_option (Validate ?env ?h (Ptr 1)) (decode ''[1,"1"]'') = Some (Inr ())\<close>
    by (simp add: eval)
  have d3: \<open>map_option (Validate ?env ?h (Ptr 1)) (decode ''[{"a":1},{"a":1}]'') = Some (Inl duplicateError)\<close>
    by (simp add: eval duplicateError_def)
  have d4: \<open>map_option (Validate ?env ?h (Ptr 1)) (decode ''[{"a":1},{"a": 1}]'') = Some (Inr ())\<close>
    by (simp add: eval)
  show ?thesis by (intro conjI obj doc e1 e2 v d1 d2 d3 d4)
qed

section \<open>The document null\<close>

text \<open>The struct a \<^verbatim>\<open>Schema\<close> value delegates to.\<close>

fun referent :: "iface \<Rightarrow> nat" where
  "referent (Ptr a) = a"
| "referent (UserTypeRef p sb) = referent p"

text \<open>
  Claim C7. Whatever the node, \<^verbatim>\<open>Validate\<close> does not accept the document
  \<^verbatim>\<open>null\<close>; for a node that exists (a map, a string, an int, a number, a bool, an
  array, an any, or a reference to a user type that wraps one of them) the error is a
  validation error with an empty path.
\<close>

theorem null_never_valid:
  "Validate env h i JNull \<noteq> Inr ()
   \<and> (heapGet h (referent i) \<noteq> None \<longrightarrow>
        (\<exists>msg. Validate env h i JNull = Inl (ValidationError [] (Errorf msg []))))"
proof (induction i)
  case (Ptr a)
  show ?case
  proof (cases "heapGet h a")
    case None
    then show ?thesis by simp
  next
    case (Some v)
    then show ?thesis
      by (cases v)
        (simp_all add: mapSchema_checks_def arraySchema_decode_def stringSchema_Validate_def
          intSchema_Validate_def anySchema_Validate_def numberSchema_Validate_def
          booleanSchema_Validate_def unmarshalAny_def deferWrap_def validationErrorf_def
          validationErrorFrom_def)
  qed
next
  case (UserTypeRef p sb)
  then show ?case by simp
qed

text \<open>The theorem at a reference to a string user type; then \<^verbatim>\<open>null\<close> against every
  kind of node, and the bytes \<^verbatim>\<open>null\<close> against a compiled schema.\<close>

theorem null_never_valid_witness:
  \<open>heapGet ([StringSchema None []] :: int heap) (referent (UserTypeRef (Ptr 0) True)) \<noteq> None
   \<and> (\<exists>msg. Validate (exampleEnv lowerKeys id) [StringSchema None []] (UserTypeRef (Ptr 0) True) JNull
              = Inl (ValidationError [] (Errorf msg [])))
   \<and> map (\<lambda>i. Validate (exampleEnv lowerKeys id)
                 [MapSchema (Some []) None None [], StringSchema None [], IntSchema None None [],
                  NumberSchema None None [], BooleanSchema, ArraySchema (Some (Ptr 6)) False, AnySchema]
                 i JNull)
          [Ptr 0, Ptr 1, Ptr 2, Ptr 3, Ptr 4, Ptr 5, Ptr 6, UserTypeRef (Ptr 1) True]
      = [Inl (validationErrorf ''cannot accept null value for "map" type'' []),
         Inl (validationErrorf ''cannot accept null value for "string" type'' []),
         Inl (validationErrorf ''cannot accept null value for "int" type'' []),
         Inl (validationErrorf ''cannot accept null value for "number" type'' []),
         Inl (validationErrorf ''cannot accept null value for "bool" type'' []),
         Inl (validationErrorf ''cannot accept null value for "array" type'' []),
         Inl (validationErrorf ''cannot accept null value for "any" type'' []),
         Inl (validationErrorf ''cannot accept null value for "string" type'' [])]
   \<and> decode ''null'' = Some JNull
   \<and> run (exampleEnv lowerKeys id) ''{"schema":{"a":"int"}}'' ''null''
        = Rejected (validationErrorf ''cannot accept null value for "map" type'' [])
   \<and> run (exampleEnv lowerKeys id) ''{"schema":{"a":"int"}}'' ''{"a":null}''
        = Rejected (ValidationError [Key ''a''] (Errorf ''cannot accept null value for "int" type'' []))\<close>
proof -
  let ?env = "exampleEnv lowerKeys id"
  have obj: "heapGet ([StringSchema None []] :: int heap) (referent (UserTypeRef (Ptr 0) True)) \<noteq> None"
    by (simp add: heapGet_def)
  have ex: "\<exists>msg. Validate ?env [StringSchema None []] (UserTypeRef (Ptr 0) True) JNull
              = Inl (ValidationError [] (Errorf msg []))"
    using null_never_valid [of ?env "[StringSchema None []]" "UserTypeRef (Ptr 0) True"] obj by blast
  have all: \<open>map (\<lambda>i. Validate ?env
                 [MapSchema (Some []) None None [], StringSchema None [], IntSchema None None [],
                  NumberSchema None None [], BooleanSchema, ArraySchema (Some (Ptr 6)) False, AnySchema]
                 i JNull)
          [Ptr 0, Ptr 1, Ptr 2, Ptr 3, Ptr 4, Ptr 5, Ptr 6, UserTypeRef (Ptr 1) True]
      = [Inl (validationErrorf ''cannot accept null value for "map" type'' []),
         Inl (validationErrorf ''cannot accept null value for "string" type'' []),
         Inl (validationErrorf ''cannot accept null value for "int" type'' []),
         Inl (validationErrorf ''cannot accept null value for "number" type'' []),
         Inl (validationErrorf ''cannot accept null value for "bool" type'' []),
         Inl (validationErrorf ''cannot accept null value for "array" type'' []),
         Inl (validationErrorf ''cannot accept null value for "any" type'' []),
         Inl (validationErrorf ''cannot accept null value for "string" type'' [])]\<close>
    by (simp add: eval)
  have d: "decode ''null'' = Some JNull"
    by (simp add: eval)
  have r1: \<open>run ?env ''{"schema":{"a":"int"}}'' ''null''
        = Rejected (validationErrorf ''cannot accept null value for "map" type'' [])\<close>
    by (simp add: eval)
  have r2: \<open>run ?env ''{"schema":{"a":"int"}}'' ''{"a":null}''
        = Rejected (ValidationError [Key ''a''] (Errorf ''cannot accept null value for "int" type'' []))\<close>
    by (simp add: eval)
  show ?thesis by (intro conjI obj ex all d r1 r2)
qed

section \<open>The type of the keys of a map\<close>

lemma stringSchema_parseConstraints_kind:
  "stringSchema_parseConstraints env (StringSchema pat chs) c = Inr v \<Longrightarrow> \<exists>pat' chs'. v = StringSchema pat' chs'"
  by (auto simp: stringSchema_parseConstraints_def stringSchema_choices_def stringSchema_pattern_def
        split: option.splits sum.splits if_splits)

text \<open>
  Claim C10. When the \<^verbatim>\<open>"keys"\<close> constraint of a map is a JSON object:
  without a \<^verbatim>\<open>"type"\<close> member (where \<^verbatim>\<open>parse\<close> would take the type to be
  \<^verbatim>\<open>"map"\<close>) or with \<^verbatim>\<open>"type"\<close> decoding to \<^verbatim>\<open>"string"\<close>,
  \<^verbatim>\<open>parseMapKeyType\<close> is the constraint parser of a fresh string schema on that
  object; with a \<^verbatim>\<open>"type"\<close> that does not decode to \<^verbatim>\<open>"string"\<close> it is an
  error; and what it returns for an object is always a new string schema.
\<close>

theorem keys_object_defaults_to_string:
  "(map_of (toMap kvs) ''type'' = None \<longrightarrow>
       typeOf (JObject bs kvs) = Inr (''map'', Some (toMap kvs))
     \<and> parseMapKeyType env ut h (JObject bs kvs) =
         (case stringSchema_parseConstraints env (StringSchema None []) (toMap kvs) of
            Inl err \<Rightarrow> Inl err
          | Inr schema \<Rightarrow> Inr (h @ [schema], Ptr (length h))))
   \<and> (map_of (toMap kvs) ''type'' = Some rawType \<and> unmarshalString rawType = Inr ''string'' \<longrightarrow>
       parseMapKeyType env ut h (JObject bs kvs) =
         (case stringSchema_parseConstraints env (StringSchema None []) (toMap kvs) of
            Inl err \<Rightarrow> Inl err
          | Inr schema \<Rightarrow> Inr (h @ [schema], Ptr (length h))))
   \<and> (map_of (toMap kvs) ''type'' = Some rawType \<and> unmarshalString rawType \<noteq> Inr ''string'' \<longrightarrow>
       (\<exists>err. parseMapKeyType env ut h (JObject bs kvs) = Inl err))
   \<and> (parseMapKeyType env ut h (JObject bs kvs) = Inr (h', keyS) \<longrightarrow>
       (\<exists>pat chs. keyS = Ptr (length h) \<and> heapGet h' (length h) = Some (StringSchema pat chs)))"
proof (intro conjI impI)
  assume "map_of (toMap kvs) ''type'' = None"
  then show "typeOf (JObject bs kvs) = Inr (''map'', Some (toMap kvs))"
    by (simp add: typeOf_def orEmpty_def)
next
  assume "map_of (toMap kvs) ''type'' = None"
  then show "parseMapKeyType env ut h (JObject bs kvs) =
         (case stringSchema_parseConstraints env (StringSchema None []) (toMap kvs) of
            Inl err \<Rightarrow> Inl err
          | Inr schema \<Rightarrow> Inr (h @ [schema], Ptr (length h)))"
    by (simp add: parseMapKeyType_def orEmpty_def alloc_def split: sum.splits)
next
  assume "map_of (toMap kvs) ''type'' = Some rawType \<and> unmarshalString rawType = Inr ''string''"
  then show "parseMapKeyType env ut h (JObject bs kvs) =
         (case stringSchema_parseConstraints env (StringSchema None []) (toMap kvs) of
            Inl err \<Rightarrow> Inl err
          | Inr schema \<Rightarrow> Inr (h @ [schema], Ptr (length h)))"
    by (simp add: parseMapKeyType_def orEmpty_def alloc_def split: sum.splits)
next
  assume "map_of (toMap kvs) ''type'' = Some rawType \<and> unmarshalString rawType \<noteq> Inr ''string''"
  then show "\<exists>err. parseMapKeyType env ut h (JObject bs kvs) = Inl err"
    by (cases "unmarshalString rawType") (auto simp: parseMapKeyType_def orEmpty_def)
next
  assume ok: "parseMapKeyType env ut h (JObject bs kvs) = Inr (h', keyS)"
  then obtain schema where s: "stringSchema_parseConstraints env (StringSchema None []) (toMap kvs) = Inr schema"
    and r: "h' = h @ [schema]" "keyS = Ptr (length h)"
    by (auto simp: parseMapKeyType_def orEmpty_def alloc_def split: option.splits sum.splits if_splits)
  from stringSchema_parseConstraints_kind [OF s] r
  show "\<exists>pat chs. keyS = Ptr (length h) \<and> heapGet h' (length h) = Some (StringSchema pat chs)"
    by (auto simp: heapGet_def)
qed

text \<open>The theorem at the objects \<^verbatim>\<open>{"pattern":"[a-z]+"}\<close> and
  \<^verbatim>\<open>{"type":"int"}\<close>; then whole schemas whose key type is an object.\<close>

theorem keys_object_defaults_to_string_witness:
  \<open>map_of (toMap [(''pattern'', JString ''"[a-z]+"'' ''[a-z]+'')]) ''type'' = None
   \<and> typeOf (JObject ''{"pattern":"[a-z]+"}'' [(''pattern'', JString ''"[a-z]+"'' ''[a-z]+'')])
        = Inr (''map'', Some [(''pattern'', JString ''"[a-z]+"'' ''[a-z]+'')])
   \<and> parseMapKeyType (exampleEnv lowerKeys id) [] []
        (JObject ''{"pattern":"[a-z]+"}'' [(''pattern'', JString ''"[a-z]+"'' ''[a-z]+'')])
        = Inr ([StringSchema (Some ''[a-z]+'') []], Ptr 0)
   \<and> map_of (toMap [(''type'', JString ''"int"'' ''int'')]) ''type'' = Some (JString ''"int"'' ''int'')
   \<and> unmarshalString (JString ''"int"'' ''int'') \<noteq> Inr ''string''
   \<and> (\<exists>err. parseMapKeyType (exampleEnv lowerKeys id) [] ([] :: int heap)
          (JObject ''{"type":"int"}'' [(''type'', JString ''"int"'' ''int'')]) = Inl err)
   \<and> run (exampleEnv lowerKeys id) ''{"schema":{"m":{"keys":{"choices":["x","y"]}}}}'' ''{"m":{"x":1}}''
        = Accepted
   \<and> run (exampleEnv lowerKeys id) ''{"schema":{"m":{"keys":{"choices":["x","y"]}}}}'' ''{"m":{"z":1}}''
        = Rejected (ValidationError [Key ''m'', Key ''z'']
            (Errorf ''string %q is not one of the allowed choices'' [S ''z'']))
   \<and> run (exampleEnv lowerKeys id) ''{"schema":{"m":{"keys":{"type":"int"}}}}'' ''{}''
        = CompileError (Errorf ''cannot parse "keys" constraint: %w''
            [E (Errorf ''must be based on string but got %q'' [S ''int''])])\<close>
proof -
  let ?env = "exampleEnv lowerKeys id"
  let ?p = \<open>[(''pattern'', JString ''"[a-z]+"'' ''[a-z]+'')]\<close>
  let ?t = \<open>[(''type'', JString ''"int"'' ''int'')]\<close>
  have n: "map_of (toMap ?p) ''type'' = None"
    by (simp add: toMap_def)
  from keys_object_defaults_to_string [where kvs = ?p and bs = \<open>''{"pattern":"[a-z]+"}''\<close>
      and env = ?env and ut = "[]" and h = "[]"] n
  have ty: \<open>typeOf (JObject ''{"pattern":"[a-z]+"}'' ?p) = Inr (''map'', Some (toMap ?p))\<close>
    and pk: \<open>parseMapKeyType ?env [] [] (JObject ''{"pattern":"[a-z]+"}'' ?p) =
         (case stringSchema_parseConstraints ?env (StringSchema None []) (toMap ?p) of
            Inl err \<Rightarrow> Inl err
          | Inr schema \<Rightarrow> Inr ([] @ [schema], Ptr (length ([] :: int heap))))\<close>
    by blast+
  from ty have ty': \<open>typeOf (JObject ''{"pattern":"[a-z]+"}'' ?p) = Inr (''map'', Some ?p)\<close>
    by (simp add: toMap_def)
  from pk have pk': \<open>parseMapKeyType ?env [] [] (JObject ''{"pattern":"[a-z]+"}'' ?p)
        = Inr ([StringSchema (Some ''[a-z]+'') []], Ptr 0)\<close>
    by (simp add: eval)
  have s: "map_of (toMap ?t) ''type'' = Some (JString ''\"int\"'' ''int'')"
    by (simp add: toMap_def)
  have u: \<open>unmarshalString (JString ''"int"'' ''int'') \<noteq> Inr ''string''\<close>
    by simp
  from keys_object_defaults_to_string [where kvs = ?t and rawType = \<open>JString ''"int"'' ''int''\<close>
      and bs = \<open>''{"type":"int"}''\<close> and env = ?env and ut = "[]" and h = "[]"] s u
  have er: \<open>\<exists>err. parseMapKeyType ?env [] ([] :: int heap) (JObject ''{"type":"int"}'' ?t) = Inl err\<close>
    by blast
  have r1: \<open>run ?env ''{"schema":{"m":{"keys":{"choices":["x","y"]}}}}'' ''{"m":{"x":1}}'' = Accepted\<close>
    by (simp add: eval)
  have r2: \<open>run ?env ''{"schema":{"m":{"keys":{"choices":["x","y"]}}}}'' ''{"m":{"z":1}}''
        = Rejected (ValidationError [Key ''m'', Key ''z'']
            (Errorf ''string %q is not one of the allowed choices'' [S ''z'']))\<close>
    by (simp add: eval)
  have r3: \<open>run ?env ''{"schema":{"m":{"keys":{"type":"int"}}}}'' ''{}''
        = CompileError (Errorf ''cannot parse "keys" constraint: %w''
            [E (Errorf ''must be based on string but got %q'' [S ''int''])])\<close>
    by (simp add: eval)
  show ?thesis by (intro conjI n ty' pk' s u er r1 r2 r3)
qed

lemma parseMapKeyType_ref:
  "parseMapKeyType env ut h (JString bs (CHR ''$'' # name)) =
     (case map_of ut name of
        None \<Rightarrow> Inl (Errorf ''cannot find user-defined type %q'' [S name])
      | Some userType \<Rightarrow>
          if isStringBased userType then Inr (h, userType)
          else Inl (Errorf ''key type %q must be based on string'' [S name]))"
  by (simp add: parseMapKeyType_def getUserType_def split: option.splits)

text \<open>
  Claim C6. A user type is string-based when the parser its reference wraps is a string
  schema (the flag \<^verbatim>\<open>newUserTypeRefParser\<close> sets). When the \<^verbatim>\<open>"keys"\<close>
  constraint of a map is the name \<^verbatim>\<open>$name\<close>, \<^verbatim>\<open>parseMapKeyType\<close> succeeds if
  and only if the table holds a string-based user type under that name, and returns
  that reference; if it does not, the constraints of the map do not compile.
\<close>

theorem keys_user_type_string_based:
  "(isStringBased (newUserTypeRefParser h p) \<longleftrightarrow>
       (\<exists>a pat chs. p = Ptr a \<and> heapGet h a = Some (StringSchema pat chs)))
   \<and> ((\<exists>r. parseMapKeyType env ut h (JString bs (CHR ''$'' # name)) = Inr r) \<longleftrightarrow>
       (\<exists>userType. map_of ut name = Some userType \<and> isStringBased userType))
   \<and> (map_of ut name = Some userType \<and> isStringBased userType \<longrightarrow>
       parseMapKeyType env ut h (JString bs (CHR ''$'' # name)) = Inr (h, userType))
   \<and> (map_of constraints ''keys'' = Some (JString bs (CHR ''$'' # name))
       \<and> \<not> (\<exists>userType. map_of ut name = Some userType \<and> isStringBased userType) \<longrightarrow>
       (\<exists>err. mapSchema_parseConstraints env ut h a constraints = Inl err))"
proof (intro conjI impI)
  show "isStringBased (newUserTypeRefParser h p) \<longleftrightarrow>
       (\<exists>a pat chs. p = Ptr a \<and> heapGet h a = Some (StringSchema pat chs))"
    by (auto simp: newUserTypeRefParser_def split: iface.splits option.splits schemaObj.splits)
  show "(\<exists>r. parseMapKeyType env ut h (JString bs (CHR ''$'' # name)) = Inr r) \<longleftrightarrow>
       (\<exists>userType. map_of ut name = Some userType \<and> isStringBased userType)"
    by (auto simp: parseMapKeyType_ref split: option.splits if_splits)
next
  assume "map_of ut name = Some userType \<and> isStringBased userType"
  then show "parseMapKeyType env ut h (JString bs (CHR ''$'' # name)) = Inr (h, userType)"
    by (simp add: parseMapKeyType_ref)
next
  assume a: "map_of constraints ''keys'' = Some (JString bs (CHR ''$'' # name))
       \<and> \<not> (\<exists>userType. map_of ut name = Some userType \<and> isStringBased userType)"
  then have "\<exists>err. parseMapKeyType env ut h (JString bs (CHR ''$'' # name)) = Inl err"
    by (auto simp: parseMapKeyType_ref split: option.splits)
  then obtain err where e: "parseMapKeyType env ut h (JString bs (CHR ''$'' # name)) = Inl err" ..
  show "\<exists>err. mapSchema_parseConstraints env ut h a constraints = Inl err"
  proof (cases "checkExclusiveMapConstraints constraints")
    case (Inl x)
    then show ?thesis by (simp add: mapSchema_parseConstraints.simps)
  next
    case (Inr u)
    with a have "map_of constraints ''schema'' = None"
      by (auto simp: checkExclusiveMapConstraints_def Let_def split: if_splits)
    with Inr a e show ?thesis by (simp add: mapSchema_parseConstraints.simps)
  qed
qed

text \<open>The theorem at a table that holds the string user type \<^verbatim>\<open>color\<close>; then the two
  schemas of the spec's example, the user type a string and an int.\<close>

theorem keys_user_type_string_based_witness:
  \<open>map_of [(''color'', UserTypeRef (Ptr 0) True)] ''color'' = Some (UserTypeRef (Ptr 0) True)
   \<and> isStringBased (UserTypeRef (Ptr 0) True)
   \<and> parseMapKeyType (exampleEnv lowerKeys id) [(''color'', UserTypeRef (Ptr 0) True)]
        [StringSchema None [''red'', ''green'']] (JString ''"$color"'' ''$color'')
        = Inr ([StringSchema None [''red'', ''green'']], UserTypeRef (Ptr 0) True)
   \<and> run (exampleEnv lowerKeys id)
        ''{"types":{"color":{"type":"string","choices":["red","green"]}},"schema":{"m":{"keys":"$color"}}}''
        ''{"m":{"red":1}}'' = Accepted
   \<and> run (exampleEnv lowerKeys id)
        ''{"types":{"color":{"type":"string","choices":["red","green"]}},"schema":{"m":{"keys":"$color"}}}''
        ''{"m":{"blue":1}}''
        = Rejected (ValidationError [Key ''m'', Key ''blue'']
            (Errorf ''string %q is not one of the allowed choices'' [S ''blue'']))
   \<and> run (exampleEnv lowerKeys id)
        ''{"types":{"color":{"type":"int"}},"schema":{"m":{"keys":"$color"}}}'' ''{}''
        = CompileError (Errorf ''cannot parse "keys" constraint: %w''
            [E (Errorf ''key type %q must be based on string'' [S ''color''])])\<close>
proof -
  let ?env = "exampleEnv lowerKeys id"
  let ?ut = "[(''color'', UserTypeRef (Ptr 0) True)]"
  have m: "map_of ?ut ''color'' = Some (UserTypeRef (Ptr 0) True)" by simp
  have sb: "isStringBased (UserTypeRef (Ptr 0) True)" by simp
  from keys_user_type_string_based [where env = ?env and ut = ?ut
      and h = "[StringSchema None [''red'', ''green'']]" and bs = \<open>''"$color"''\<close>
      and name = "''color''" and userType = "UserTypeRef (Ptr 0) True"] m sb
  have pk: \<open>parseMapKeyType ?env ?ut [StringSchema None [''red'', ''green'']] (JString ''"$color"'' ''$color'')
        = Inr ([StringSchema None [''red'', ''green'']], UserTypeRef (Ptr 0) True)\<close>
    by simp
  have r1: \<open>run ?env
        ''{"types":{"color":{"type":"string","choices":["red","green"]}},"schema":{"m":{"keys":"$color"}}}''
        ''{"m":{"red":1}}'' = Accepted\<close>
    by (simp add: eval)
  have r2: \<open>run ?env
        ''{"types":{"color":{"type":"string","choices":["red","green"]}},"schema":{"m":{"keys":"$color"}}}''
        ''{"m":{"blue":1}}''
        = Rejected (ValidationError [Key ''m'', Key ''blue'']
            (Errorf ''string %q is not one of the allowed choices'' [S ''blue'']))\<close>
    by (simp add: eval)
  have r3: \<open>run ?env
        ''{"types":{"color":{"type":"int"}},"schema":{"m":{"keys":"$color"}}}'' ''{}''
        = CompileError (Errorf ''cannot parse "keys" constraint: %w''
            [E (Errorf ''key type %q must be based on string'' [S ''color''])])\<close>
    by (simp add: eval)
  show ?thesis by (intro conjI m sb pk r1 r2 r3)
qed

section \<open>Constraints that exclude each other\<close>


definition has :: "gomap \<Rightarrow> string \<Rightarrow> bool" where
  "has obj k \<longleftrightarrow> map_of obj k \<noteq> None"






















lemma toMap_distinct_aux:
  "distinct (map fst m) \<Longrightarrow> distinct (map fst (foldl (\<lambda>m (k, v). AList.update k v m) m kvs))"
  by (induction kvs arbitrary: m) (auto simp: distinct_update)

lemma toMap_distinct: "distinct (map fst (toMap kvs))"
  unfolding toMap_def by (rule toMap_distinct_aux) simp

lemma rangeMap_member:
  assumes "orderOk env" "distinct (map fst m)" "(k, v) \<in> set m"
  shows "(k, v) \<in> set (rangeMap env m)"
proof -
  from assms(2,3) have mo: "map_of m k = Some v" by simp
  from assms(3) have "k \<in> set (map fst m)" by force
  with assms(1,2) have "k \<in> set (mapOrder env (map fst m))"
    by (simp add: orderOk_def)
  with mo show ?thesis
    by (force simp: rangeMap_def)
qed















section \<open>The path of a validation error\<close>

lemma prependPath_simps:
  "prependPath p (Inr ()) = Inr ()"
  "prependPath p (Inl (ValidationError path err)) = Inl (ValidationError (p # path) err)"
  by (simp_all add: prependPath_def)

text \<open>
  Claim C8. A composite node prepends its own locator to the path of the validation
  error of the first element that fails, and returns that error: an array whose element
  at index \<open>length pre\<close> fails (the elements before it being valid) prepends the index;
  a map that has passed its own checks prepends the key of the first failing entry, in
  the exact-schema shape, for a key rejected by the schema of the keys, and for a value
  rejected by the schema of the values. \<^verbatim>\<open>ValidationError.Error\<close> renders an empty
  path as \<^verbatim>\<open>cannot accept top level element\<close> and a non-empty one as
  \<^verbatim>\<open>cannot accept element in "path"\<close>, where the path is written with a dot
  before every key but the first and with each index between brackets:
  \<^verbatim>\<open>a.b[2]\<close> for the keys \<^verbatim>\<open>a\<close>, \<^verbatim>\<open>b\<close> and the index 2.
\<close>

theorem error_path:
  "(heapGet h a = Some (ArraySchema (Some t) uq) \<and> unmarshalArray raw = Inr (Some (pre @ x # post))
      \<and> (\<forall>y \<in> set pre. Validate env h t y = Inr ())
      \<and> Validate env h t x = Inl (ValidationError p err)
      \<longrightarrow> Validate env h (Ptr a) raw = Inl (ValidationError (Idx (length pre) # p) err))
   \<and> (heapGet h a = Some (MapSchema (Some entries) vs ks rc)
      \<and> mapSchema_checks env (MapSchema (Some entries) vs ks rc) raw = Inr m
      \<and> rangeMap env m = before @ (k, val) # after
      \<and> (\<forall>kv \<in> set before. \<forall>validator. map_of entries (fst kv) = Some validator
             \<longrightarrow> Validate env h validator (snd kv) = Inr ())
      \<and> map_of entries k = Some validator
      \<and> Validate env h validator val = Inl (ValidationError p err)
      \<longrightarrow> Validate env h (Ptr a) raw = Inl (ValidationError (Key k # p) err))
   \<and> (heapGet h a = Some (MapSchema None vs (Some keyS) rc)
      \<and> mapSchema_checks env (MapSchema None vs (Some keyS) rc) raw = Inr m
      \<and> rangeMap env m = before @ (k, val) # after
      \<and> (\<forall>kv \<in> set before. Validate env h keyS (marshalString (fst kv)) = Inr ())
      \<and> Validate env h keyS (marshalString k) = Inl (ValidationError p err)
      \<longrightarrow> Validate env h (Ptr a) raw = Inl (ValidationError (Key k # p) err))
   \<and> (heapGet h a = Some (MapSchema None (Some valS) ks rc)
      \<and> mapSchema_checks env (MapSchema None (Some valS) ks rc) raw = Inr m
      \<and> rangeMap env m = before @ (k, val) # after
      \<and> (\<forall>keyS. ks = Some keyS \<longrightarrow>
            (\<forall>kv \<in> set (rangeMap env m). Validate env h keyS (marshalString (fst kv)) = Inr ()))
      \<and> (\<forall>kv \<in> set before. Validate env h valS (snd kv) = Inr ())
      \<and> Validate env h valS val = Inl (ValidationError p err)
      \<longrightarrow> Validate env h (Ptr a) raw = Inl (ValidationError (Key k # p) err))
   \<and> ValidationError_Error (ValidationError [] err)
        = Sprintf ''%s: %v'' [MM (Lit ''cannot accept top level element''), ME err]
   \<and> (p \<noteq> [] \<longrightarrow> ValidationError_Error (ValidationError p err)
        = Sprintf ''%s: %v'' [MM (Sprintf ''cannot accept element in %q'' [MS (writePath 0 p)]), ME err])
   \<and> writePath 0 (Key k # rest) = k @ writePath 1 rest
   \<and> writePath (Suc i) (Key k # rest) = ''.'' @ k @ writePath (Suc (Suc i)) rest
   \<and> writePath i (Idx n # rest) = ''['' @ showNat n @ '']'' @ writePath (Suc i) rest
   \<and> writePath 0 [Key ''a'', Key ''b'', Idx 2] = ''a.b[2]''"
proof (intro conjI impI)
  assume a: "heapGet h a = Some (ArraySchema (Some t) uq) \<and> unmarshalArray raw = Inr (Some (pre @ x # post))
      \<and> (\<forall>y \<in> set pre. Validate env h t y = Inr ())
      \<and> Validate env h t x = Inl (ValidationError p err)"
  then have dec: "arraySchema_decode raw = Inr (pre @ x # post)"
    by (simp add: arraySchema_decode_def)
  have "forEach (\<lambda>(e, val). case Some t of
                                      None \<Rightarrow> Inl NilDereference
                                    | Some t \<Rightarrow> prependPath (Idx e) (Validate env h t val))
                (enumerate 0 (pre @ x # post)) = Inl (ValidationError (Idx (length pre) # p) err)"
  proof -
    have "enumerate 0 (pre @ x # post) = enumerate 0 pre @ (length pre, x) # enumerate (Suc (length pre)) post"
      by (simp add: enumerate_append_eq)
    moreover have "\<forall>z \<in> set (enumerate 0 pre). (\<lambda>(e, val). case Some t of
                                      None \<Rightarrow> Inl NilDereference
                                    | Some t \<Rightarrow> prependPath (Idx e) (Validate env h t val)) z = Inr ()"
      using a by (auto simp: in_set_enumerate_eq prependPath_simps)
    moreover have "(\<lambda>(e, val). case Some t of
                                      None \<Rightarrow> Inl NilDereference
                                    | Some t \<Rightarrow> prependPath (Idx e) (Validate env h t val)) (length pre, x)
                   = Inl (ValidationError (Idx (length pre) # p) err)"
      using a by (simp add: prependPath_simps)
    ultimately show ?thesis
      by (simp only: forEach_first)
  qed
  with a dec show "Validate env h (Ptr a) raw = Inl (ValidationError (Idx (length pre) # p) err)"
    by simp
next
  assume a: "heapGet h a = Some (MapSchema (Some entries) vs ks rc)
      \<and> mapSchema_checks env (MapSchema (Some entries) vs ks rc) raw = Inr m
      \<and> rangeMap env m = before @ (k, val) # after
      \<and> (\<forall>kv \<in> set before. \<forall>validator. map_of entries (fst kv) = Some validator
             \<longrightarrow> Validate env h validator (snd kv) = Inr ())
      \<and> map_of entries k = Some validator
      \<and> Validate env h validator val = Inl (ValidationError p err)"
  let ?f = "\<lambda>(key, val). case map_of entries key of
                                     None \<Rightarrow> Inr ()
                                   | Some validator \<Rightarrow>
                                       prependPath (Key key) (Validate env h validator val)"
  have "\<forall>z \<in> set before. ?f z = Inr ()"
    using a by (auto simp: prependPath_simps split: option.splits)
  moreover have "?f (k, val) = Inl (ValidationError (Key k # p) err)"
    using a by (simp add: prependPath_simps)
  ultimately have "forEach ?f (before @ (k, val) # after) = Inl (ValidationError (Key k # p) err)"
    by (rule forEach_first)
  with a show "Validate env h (Ptr a) raw = Inl (ValidationError (Key k # p) err)"
    by simp
next
  assume a: "heapGet h a = Some (MapSchema None vs (Some keyS) rc)
      \<and> mapSchema_checks env (MapSchema None vs (Some keyS) rc) raw = Inr m
      \<and> rangeMap env m = before @ (k, val) # after
      \<and> (\<forall>kv \<in> set before. Validate env h keyS (marshalString (fst kv)) = Inr ())
      \<and> Validate env h keyS (marshalString k) = Inl (ValidationError p err)"
  let ?f = "\<lambda>(k, x). prependPath (Key k) (Validate env h keyS (marshalString k))"
  have "\<forall>z \<in> set before. ?f z = Inr ()"
    using a by (auto simp: prependPath_simps)
  moreover have "?f (k, val) = Inl (ValidationError (Key k # p) err)"
    using a by (simp add: prependPath_simps)
  ultimately have "forEach ?f (before @ (k, val) # after) = Inl (ValidationError (Key k # p) err)"
    by (rule forEach_first)
  with a show "Validate env h (Ptr a) raw = Inl (ValidationError (Key k # p) err)"
    by simp
next
  assume a: "heapGet h a = Some (MapSchema None (Some valS) ks rc)
      \<and> mapSchema_checks env (MapSchema None (Some valS) ks rc) raw = Inr m
      \<and> rangeMap env m = before @ (k, val) # after
      \<and> (\<forall>keyS. ks = Some keyS \<longrightarrow>
            (\<forall>kv \<in> set (rangeMap env m). Validate env h keyS (marshalString (fst kv)) = Inr ()))
      \<and> (\<forall>kv \<in> set before. Validate env h valS (snd kv) = Inr ())
      \<and> Validate env h valS val = Inl (ValidationError p err)"
  have keys: "(case ks of
                                None \<Rightarrow> Inr ()
                              | Some keyS \<Rightarrow>
                                  forEach (\<lambda>(k, x). prependPath (Key k)
                                             (Validate env h keyS (marshalString k)))
                                          (rangeMap env m)) = Inr ()"
  proof (cases ks)
    case None
    then show ?thesis by simp
  next
    case (Some keyS)
    with a have "\<forall>kv \<in> set (rangeMap env m). Validate env h keyS (marshalString (fst kv)) = Inr ()"
      by blast
    then have "forEach (\<lambda>(k, x). prependPath (Key k) (Validate env h keyS (marshalString k)))
                 (rangeMap env m) = Inr ()"
      by (subst forEach_Inr) (auto simp: prependPath_simps)
    with Some show ?thesis by simp
  qed
  let ?f = "\<lambda>(k, val). prependPath (Key k) (Validate env h valS val)"
  have "\<forall>z \<in> set before. ?f z = Inr ()"
    using a by (auto simp: prependPath_simps)
  moreover have "?f (k, val) = Inl (ValidationError (Key k # p) err)"
    using a by (simp add: prependPath_simps)
  ultimately have "forEach ?f (before @ (k, val) # after) = Inl (ValidationError (Key k # p) err)"
    by (rule forEach_first)
  with a keys show "Validate env h (Ptr a) raw = Inl (ValidationError (Key k # p) err)"
    by simp
next
  show "ValidationError_Error (ValidationError [] err)
        = Sprintf ''%s: %v'' [MM (Lit ''cannot accept top level element''), ME err]"
    by (simp add: ValidationError_Error_def)
next
  assume "p \<noteq> []"
  then show "ValidationError_Error (ValidationError p err)
        = Sprintf ''%s: %v'' [MM (Sprintf ''cannot accept element in %q'' [MS (writePath 0 p)]), ME err]"
    by (simp add: ValidationError_Error_def)
next
  show "writePath 0 (Key k # rest) = k @ writePath 1 rest" by simp
  show "writePath (Suc i) (Key k # rest) = ''.'' @ k @ writePath (Suc (Suc i)) rest" by simp
  show "writePath i (Idx n # rest) = ''['' @ showNat n @ '']'' @ writePath (Suc i) rest" by simp
  show "writePath 0 [Key ''a'', Key ''b'', Idx 2] = ''a.b[2]''"
    by (simp add: char_of_def bit_Suc_0_iff)
qed


text \<open>The theorem at an array of ints holding \<^verbatim>\<open>[1,"x"]\<close>; then the schema
  \<^verbatim>\<open>{"schema":{"a":{"type":"array","values":"int"}}}\<close> on the document
  \<^verbatim>\<open>{"a":[1,"x"]}\<close>, whose error has the path \<^verbatim>\<open>a[1]\<close>.\<close>

theorem error_path_witness:
  \<open>Validate (exampleEnv lowerKeys id) [IntSchema None None [], ArraySchema (Some (Ptr 0)) False] (Ptr 1)
       (JArray ''[1,"x"]'' [JNumber ''1'', JString ''"x"'' ''x''])
     = Inl (ValidationError [Idx 1] (Errorf ''expected int type but got %s'' [S ''string'']))
   \<and> run (exampleEnv lowerKeys id) ''{"schema":{"a":{"type":"array","values":"int"}}}'' ''{"a":[1,"x"]}''
     = Rejected (ValidationError [Key ''a'', Idx 1] (Errorf ''expected int type but got %s'' [S ''string'']))
   \<and> writePath 0 [Key ''a'', Idx 1] = ''a[1]''
   \<and> ValidationError_Error (ValidationError [Key ''a'', Idx 1] (Errorf ''expected int type but got %s'' [S ''string'']))
     = Sprintf ''%s: %v'' [MM (Sprintf ''cannot accept element in %q'' [MS ''a[1]'']),
         ME (Errorf ''expected int type but got %s'' [S ''string''])]
   \<and> run (exampleEnv lowerKeys id) ''{"schema":{"a":{"schema":{"b":{"type":"array","values":"int"}}}}}''
         ''{"a":{"b":[1,2,"x"]}}''
     = Rejected (ValidationError [Key ''a'', Key ''b'', Idx 2] (Errorf ''expected int type but got %s'' [S ''string'']))
   \<and> run (exampleEnv lowerKeys id) ''{"schema":{"a":"int"}}'' ''[]''
     = Rejected (ValidationError [] (Errorf ''expected map type but got %s'' [S ''array'']))\<close>
proof -
  let ?env = "exampleEnv lowerKeys id"
  let ?h = "[IntSchema None None [], ArraySchema (Some (Ptr 0)) False] :: int heap"
  let ?cause = "Errorf ''expected int type but got %s'' [S ''string'']"
  have hyp: \<open>heapGet ?h 1 = Some (ArraySchema (Some (Ptr 0)) False)
      \<and> unmarshalArray (JArray ''[1,"x"]'' [JNumber ''1'', JString ''"x"'' ''x''])
           = Inr (Some ([JNumber ''1''] @ JString ''"x"'' ''x'' # []))
      \<and> (\<forall>y \<in> set [JNumber ''1'']. Validate ?env ?h (Ptr 0) y = Inr ())
      \<and> Validate ?env ?h (Ptr 0) (JString ''"x"'' ''x'') = Inl (ValidationError [] ?cause)\<close>
    by (simp add: eval)
  have v: \<open>Validate ?env ?h (Ptr 1) (JArray ''[1,"x"]'' [JNumber ''1'', JString ''"x"'' ''x''])
     = Inl (ValidationError [Idx 1] ?cause)\<close>
    using error_path [where env = ?env and h = ?h and a = 1 and t = "Ptr 0" and uq = False
        and raw = \<open>JArray ''[1,"x"]'' [JNumber ''1'', JString ''"x"'' ''x'']\<close>
        and pre = "[JNumber ''1'']" and x = \<open>JString ''"x"'' ''x''\<close> and post = "[]"
        and p = "[]" and err = ?cause, THEN conjunct1, rule_format, OF hyp]
    by simp
  have r: \<open>run ?env ''{"schema":{"a":{"type":"array","values":"int"}}}'' ''{"a":[1,"x"]}''
     = Rejected (ValidationError [Key ''a'', Idx 1] ?cause)\<close>
    by (simp add: eval)
  have w: "writePath 0 [Key ''a'', Idx 1] = ''a[1]''"
    by (simp add: char_of_def bit_Suc_0_iff)
  have e: \<open>ValidationError_Error (ValidationError [Key ''a'', Idx 1] ?cause)
     = Sprintf ''%s: %v'' [MM (Sprintf ''cannot accept element in %q'' [MS ''a[1]'']), ME ?cause]\<close>
    by (simp add: ValidationError_Error_def char_of_def bit_Suc_0_iff)
  have r2: \<open>run ?env ''{"schema":{"a":{"schema":{"b":{"type":"array","values":"int"}}}}}''
         ''{"a":{"b":[1,2,"x"]}}''
     = Rejected (ValidationError [Key ''a'', Key ''b'', Idx 2] ?cause)\<close>
    by (simp add: eval)
  have r3: \<open>run ?env ''{"schema":{"a":"int"}}'' ''[]''
     = Rejected (ValidationError [] (Errorf ''expected map type but got %s'' [S ''array'']))\<close>
    by (simp add: eval)
  show ?thesis by (intro conjI v r w e r2 r3)
qed


section \<open>Names of user types\<close>

lemma parseUserTypes_invalid:
  "(name, d) \<in> set kvs \<Longrightarrow> \<not> validUserType name \<Longrightarrow> \<exists>err. parseUserTypes env ut h kvs = Inl err"
proof (induction kvs arbitrary: ut h)
  case Nil
  then show ?case by simp
next
  case (Cons x rest)
  obtain n d' where x: "x = (n, d')" by (cases x)
  show ?case
  proof (cases "validUserType n")
    case False
    then show ?thesis by (simp add: x)
  next
    case True
    with Cons.prems x have "(name, d) \<in> set rest" by auto
    note ih = Cons.IH [OF this Cons.prems(2)]
    show ?thesis
    proof (cases "parse env ut h d'")
      case (Inl err)
      with True show ?thesis by (simp add: x)
    next
      case (Inr r)
      obtain h1 e where r: "r = (h1, e)" by (cases r)
      from ih [of "AList.update n (newUserTypeRefParser h1 e) ut" h1]
      obtain err where "parseUserTypes env (AList.update n (newUserTypeRefParser h1 e) ut) h1 rest = Inl err" ..
      with True Inr r show ?thesis by (simp add: x)
    qed
  qed
qed

lemma parseUserTypes_names:
  "parseUserTypes env ut h kvs = Inr (ut', h') \<Longrightarrow> fst ` set ut' = fst ` set ut \<union> fst ` set kvs"
proof (induction kvs arbitrary: ut h)
  case Nil
  then show ?case by simp
next
  case (Cons x rest)
  obtain n d where x: "x = (n, d)" by (cases x)
  from Cons.prems obtain h1 e where
    "parseUserTypes env (AList.update n (newUserTypeRefParser h1 e) ut) h1 rest = Inr (ut', h')"
    by (auto simp: x split: if_splits sum.splits)
  from Cons.IH [OF this] show ?case
    by (auto simp: x dom_update)
qed

lemma parseUserTypes_append:
  "parseUserTypes env ut h (pre @ kvs) =
     (case parseUserTypes env ut h pre of
        Inl err \<Rightarrow> Inl err
      | Inr (ut', h') \<Rightarrow> parseUserTypes env ut' h' kvs)"
proof (induction pre arbitrary: ut h)
  case Nil
  then show ?case by simp
next
  case (Cons x pre)
  obtain n d where x: "x = (n, d)" by (cases x)
  show ?case
    by (simp add: x Cons.IH split: sum.splits)
qed

lemma map_of_None_iff: "map_of ut ref = None \<longleftrightarrow> ref \<notin> fst ` set ut"
  by (simp add: map_of_eq_None_iff)

lemma parse_ref_undeclared:
  assumes "map_of ut ref = None"
  shows "\<exists>err. parse env ut h (JString bs (CHR ''$'' # ref)) = Inl err"
  using assms
  by (subst parse.simps) (simp add: typeOf_def newTypeSchema_def getUserType_def)

lemma parseUserTypes_forward:
  assumes a: "ref \<notin> fst ` set ut \<and> ref \<notin> fst ` set before"
  shows "\<exists>err. parseUserTypes env ut h (before @ (name, JString bs (CHR ''$'' # ref)) # after) = Inl err"
proof (cases "parseUserTypes env ut h before")
  case (Inl err)
  then show ?thesis by (simp add: parseUserTypes_append)
next
  case (Inr r)
  obtain ut' h' where r: "r = (ut', h')" by (cases r)
  from parseUserTypes_names [OF Inr [unfolded r]] a have "map_of ut' ref = None"
    by (simp add: map_of_None_iff)
  from parse_ref_undeclared [OF this, of env h' bs]
  obtain err where "parse env ut' h' (JString bs (CHR ''$'' # ref)) = Inl err" ..
  with Inr r show ?thesis
    by (simp add: parseUserTypes_append)
qed

text \<open>
  A schema whose \<^verbatim>\<open>"types"\<close> map has a name outside the grammar
  \<^verbatim>\<open>[a-z][a-z0-9-]*\<close> does not compile. \<^verbatim>\<open>getUserType\<close> answers with exactly
  the entry the table of user types holds under the name: \<^verbatim>\<open>$name\<close> is that entry
  when there is one, and an error of \<^verbatim>\<open>newTypeSchema\<close> and of \<^verbatim>\<open>parse\<close>
  when there is none. The table is filled as the loop of \<^verbatim>\<open>ParseSchema\<close> goes over
  the \<^verbatim>\<open>"types"\<close> map, each type entering it once its definition is compiled: a
  user type defined as \<^verbatim>\<open>$ref\<close> where \<open>ref\<close> is neither in the table nor among
  the names the loop has visited before makes the loop, and hence the compilation, fail.
  Before is in the order in which the loop visits the map, which is not the order in
  which the schema declares the types.
\<close>

lemma user_type_names:
  "(orderOk env \<and> unmarshalMap raw = Inr (Some c) \<and> map_of c ''types'' = Some rawTypes
      \<and> unmarshalMap rawTypes = Inr (Some types) \<and> (name, d) \<in> set types \<and> \<not> validUserType name
      \<longrightarrow> (\<exists>err. ParseSchemaTree env raw = Inl err))
   \<and> (getUserType ut ref = Inr u \<longleftrightarrow> map_of ut ref = Some u)
   \<and> (map_of ut ref = Some u \<longrightarrow> newTypeSchema ut h (CHR ''$'' # ref) = Inr (h, u))
   \<and> (map_of ut ref = None \<longrightarrow>
        (\<exists>err. newTypeSchema ut h (CHR ''$'' # ref) = Inl err)
      \<and> (\<exists>err. parse env ut h (JString bs (CHR ''$'' # ref)) = Inl err))
   \<and> (ref \<notin> fst ` set ut \<and> ref \<notin> fst ` set before \<longrightarrow>
        (\<exists>err. parseUserTypes env ut h (before @ (name, JString bs (CHR ''$'' # ref)) # after) = Inl err))
   \<and> (unmarshalMap raw = Inr (Some c) \<and> map_of c ''types'' = Some rawTypes
      \<and> unmarshalMap rawTypes = Inr (Some types)
      \<and> rangeMap env types = before @ (name, JString bs (CHR ''$'' # ref)) # after
      \<and> ref \<notin> fst ` set before
      \<longrightarrow> (\<exists>err. ParseSchemaTree env raw = Inl err))"
proof (intro conjI impI)
  assume a: "orderOk env \<and> unmarshalMap raw = Inr (Some c) \<and> map_of c ''types'' = Some rawTypes
      \<and> unmarshalMap rawTypes = Inr (Some types) \<and> (name, d) \<in> set types \<and> \<not> validUserType name"
  then have "distinct (map fst types)"
    by (cases rawTypes) (auto simp: toMap_distinct)
  with a rangeMap_member [of env types name d] have "(name, d) \<in> set (rangeMap env types)"
    by simp
  with a parseUserTypes_invalid [of name d "rangeMap env types" env "[]" "[]"]
  obtain err where "parseUserTypes env [] [] (rangeMap env types) = Inl err"
    by auto
  with a show "\<exists>err. ParseSchemaTree env raw = Inl err"
    unfolding ParseSchemaTree_def
    by (auto split: sum.splits option.splits if_splits simp: orEmpty_def)
next
  show "getUserType ut ref = Inr u \<longleftrightarrow> map_of ut ref = Some u"
    by (auto simp: getUserType_def split: option.splits)
next
  assume "map_of ut ref = Some u"
  then show "newTypeSchema ut h (CHR ''$'' # ref) = Inr (h, u)"
    by (simp add: newTypeSchema_def getUserType_def)
next
  assume "map_of ut ref = None"
  then show "\<exists>err. newTypeSchema ut h (CHR ''$'' # ref) = Inl err"
    by (simp add: newTypeSchema_def getUserType_def)
next
  assume "map_of ut ref = None"
  then show "\<exists>err. parse env ut h (JString bs (CHR ''$'' # ref)) = Inl err"
    by (rule parse_ref_undeclared)
next
  assume "ref \<notin> fst ` set ut \<and> ref \<notin> fst ` set before"
  then show "\<exists>err. parseUserTypes env ut h (before @ (name, JString bs (CHR ''$'' # ref)) # after) = Inl err"
    by (rule parseUserTypes_forward)
next
  assume a: "unmarshalMap raw = Inr (Some c) \<and> map_of c ''types'' = Some rawTypes
      \<and> unmarshalMap rawTypes = Inr (Some types)
      \<and> rangeMap env types = before @ (name, JString bs (CHR ''$'' # ref)) # after
      \<and> ref \<notin> fst ` set before"
  then have "ref \<notin> fst ` set ([] :: userTypeTable) \<and> ref \<notin> fst ` set before"
    by simp
  from parseUserTypes_forward [OF this, of env "[]" name bs after]
  obtain err where "parseUserTypes env [] [] (rangeMap env types) = Inl err"
    using a by auto
  with a show "\<exists>err. ParseSchemaTree env raw = Inl err"
    unfolding ParseSchemaTree_def
    by (auto split: sum.splits option.splits if_splits simp: orEmpty_def)
qed

text \<open>The theorem at the schema \<^verbatim>\<open>{"types":{"My":"string"},"schema":{}}\<close> and at
  \<^verbatim>\<open>{"types":{"b":"$a","a":"string"},"schema":{}}\<close> visited in the order written;
  the latter compiles when the loop visits \<^verbatim>\<open>a\<close> first. Then a type that refers to
  itself, a reference to a type that is not declared, and a reference that resolves.\<close>

lemma user_type_names_witness:
  \<open>map validUserType [''my-type'', ''a1'', ''My'', ''1a'', ''-a'', ''a_b'', '''']
     = [True, True, False, False, False, False, False]
   \<and> (\<exists>err. ParseSchemaTree (exampleEnv lowerKeys id)
          (the (decode ''{"types":{"My":"string"},"schema":{}}'')) = Inl err)
   \<and> run (exampleEnv lowerKeys id) ''{"types":{"My":"string"},"schema":{}}'' ''{}''
     = CompileError (Errorf ''cannot parse user-defined type name %q: must match %s'' [S ''My'', S ''validUserType''])
   \<and> (\<exists>err. ParseSchemaTree (exampleEnv lowerKeys id)
          (the (decode ''{"types":{"b":"$a","a":"string"},"schema":{}}'')) = Inl err)
   \<and> run (exampleEnv lowerKeys id) ''{"types":{"b":"$a","a":"string"},"schema":{}}'' ''{}''
     = CompileError (Errorf ''cannot parse user-defined type %q: %w''
         [S ''b'', E (Errorf ''cannot find user-defined type %q'' [S ''a''])])
   \<and> run (exampleEnv lowerKeys rev) ''{"types":{"b":"$a","a":"string"},"schema":{}}'' ''{}''
     = Accepted
   \<and> run (exampleEnv lowerKeys id) ''{"types":{"a":"$a"},"schema":{}}'' ''{}''
     = CompileError (Errorf ''cannot parse user-defined type %q: %w''
         [S ''a'', E (Errorf ''cannot find user-defined type %q'' [S ''a''])])
   \<and> run (exampleEnv lowerKeys id) ''{"schema":{"x":"$nope"}}'' ''{}''
     = CompileError (Errorf ''cannot find user-defined type %q'' [S ''nope''])
   \<and> run (exampleEnv lowerKeys id) ''{"types":{"a":"string"},"schema":{"x":"$a"}}'' ''{"x":"v"}''
     = Accepted\<close>
proof -
  let ?env = "exampleEnv lowerKeys id"
  define top where \<open>top = the (decode ''{"types":{"My":"string"},"schema":{}}'')\<close>
  define rawTypes where \<open>rawTypes = the (decode ''{"My":"string"}'')\<close>
  define rawSchema where \<open>rawSchema = the (decode ''{}'')\<close>
  define d where \<open>d = JString ''"string"'' ''string''\<close>
  define top2 where \<open>top2 = the (decode ''{"types":{"b":"$a","a":"string"},"schema":{}}'')\<close>
  define rawTypes2 where \<open>rawTypes2 = the (decode ''{"b":"$a","a":"string"}'')\<close>
  define bs where \<open>bs = ''"$a"''\<close>
  have g: "map validUserType [''my-type'', ''a1'', ''My'', ''1a'', ''-a'', ''a_b'', '''']
     = [True, True, False, False, False, False, False]"
    by (simp add: eval)
  have hyp: "orderOk ?env \<and> unmarshalMap top = Inr (Some [(''types'', rawTypes), (''schema'', rawSchema)])
      \<and> map_of [(''types'', rawTypes), (''schema'', rawSchema)] ''types'' = Some rawTypes
      \<and> unmarshalMap rawTypes = Inr (Some [(''My'', d)]) \<and> (''My'', d) \<in> set [(''My'', d)]
      \<and> \<not> validUserType ''My''"
    by (simp add: orderOk_def top_def rawTypes_def rawSchema_def d_def eval)
  have pt: "\<exists>err. ParseSchemaTree ?env top = Inl err"
    using user_type_names [where env = ?env and raw = top and c = "[(''types'', rawTypes), (''schema'', rawSchema)]"
        and rawTypes = rawTypes and types = "[(''My'', d)]" and name = "''My''" and d = d,
        THEN conjunct1, rule_format, OF hyp] .
  have hyp2: "unmarshalMap top2 = Inr (Some [(''types'', rawTypes2), (''schema'', rawSchema)])
      \<and> map_of [(''types'', rawTypes2), (''schema'', rawSchema)] ''types'' = Some rawTypes2
      \<and> unmarshalMap rawTypes2 = Inr (Some [(''b'', JString bs ''$a''), (''a'', d)])
      \<and> rangeMap ?env [(''b'', JString bs ''$a''), (''a'', d)]
          = [] @ (''b'', JString bs (CHR ''$'' # ''a'')) # [(''a'', d)]
      \<and> ''a'' \<notin> fst ` set ([] :: (string \<times> jtree) list)"
    by (simp add: top2_def rawTypes2_def rawSchema_def d_def bs_def eval)
  have pt2: "\<exists>err. ParseSchemaTree ?env top2 = Inl err"
    using user_type_names [where env = ?env and raw = top2 and c = "[(''types'', rawTypes2), (''schema'', rawSchema)]"
        and rawTypes = rawTypes2 and types = "[(''b'', JString bs ''$a''), (''a'', d)]" and name = "''b''"
        and before = "[]" and after = "[(''a'', d)]" and ref = "''a''" and bs = bs,
        THEN conjunct2, THEN conjunct2, THEN conjunct2, THEN conjunct2, THEN conjunct2,
        rule_format, OF hyp2] .
  have r1: \<open>run ?env ''{"types":{"My":"string"},"schema":{}}'' ''{}''
     = CompileError (Errorf ''cannot parse user-defined type name %q: must match %s'' [S ''My'', S ''validUserType''])\<close>
    by (simp add: eval)
  have r2: \<open>run ?env ''{"types":{"b":"$a","a":"string"},"schema":{}}'' ''{}''
     = CompileError (Errorf ''cannot parse user-defined type %q: %w''
         [S ''b'', E (Errorf ''cannot find user-defined type %q'' [S ''a''])])\<close>
    by (simp add: eval)
  have r2': \<open>run (exampleEnv lowerKeys rev) ''{"types":{"b":"$a","a":"string"},"schema":{}}'' ''{}''
     = Accepted\<close>
    by (simp add: eval)
  have r3: \<open>run ?env ''{"types":{"a":"$a"},"schema":{}}'' ''{}''
     = CompileError (Errorf ''cannot parse user-defined type %q: %w''
         [S ''a'', E (Errorf ''cannot find user-defined type %q'' [S ''a''])])\<close>
    by (simp add: eval)
  have r4: \<open>run ?env ''{"schema":{"x":"$nope"}}'' ''{}''
     = CompileError (Errorf ''cannot find user-defined type %q'' [S ''nope''])\<close>
    by (simp add: eval)
  have r5: \<open>run ?env ''{"types":{"a":"string"},"schema":{"x":"$a"}}'' ''{"x":"v"}'' = Accepted\<close>
    by (simp add: eval)
  show ?thesis
    by (intro conjI g pt [unfolded top_def] r1 pt2 [unfolded top2_def] r2 r2' r3 r4 r5)
qed

text \<open>
  Claim C2. A reference to a user type that the schema declares further down resolves
  when the loop of \<^verbatim>\<open>ParseSchema\<close> visits that type first. In
  \<^verbatim>\<open>{"types":{"b":"$a","a":"string"},"schema":{"x":"$b"}}\<close> the names
  \<^verbatim>\<open>a\<close> and \<^verbatim>\<open>b\<close> are in the grammar and \<^verbatim>\<open>b\<close> refers to
  \<^verbatim>\<open>a\<close> before \<^verbatim>\<open>a\<close> is declared. Under the order that visits
  \<^verbatim>\<open>a\<close> before \<^verbatim>\<open>b\<close>, a permutation of the keys, the schema compiles:
  \<^verbatim>\<open>b\<close> is a reference to the reference \<^verbatim>\<open>a\<close>, and the compiled schema
  accepts a string under \<^verbatim>\<open>x\<close> and rejects a number. So does a forward
  reference inside the definition of an array. Under the order that visits
  \<^verbatim>\<open>b\<close> first the same bytes fail with
  \<^verbatim>\<open>cannot find user-defined type "a"\<close>.
\<close>

theorem forward_reference_resolves:
  \<open>(\<forall>ks. set (mapOrder (exampleEnv lowerKeys rev) ks) = set ks
         \<and> distinct (mapOrder (exampleEnv lowerKeys rev) ks) = distinct ks)
   \<and> validUserType ''a'' \<and> validUserType ''b''
   \<and> ParseSchema (exampleEnv lowerKeys rev) ''{"types":{"b":"$a","a":"string"},"schema":{"x":"$b"}}''
       = Inr \<lparr>heap = [StringSchema None [],
                       MapSchema (Some [(''x'', UserTypeRef (UserTypeRef (Ptr 0) True) False)]) None None []],
              topLevel = Ptr 1,
              userTypes = [(''a'', UserTypeRef (Ptr 0) True),
                           (''b'', UserTypeRef (UserTypeRef (Ptr 0) True) False)]\<rparr>
   \<and> run (exampleEnv lowerKeys rev) ''{"types":{"b":"$a","a":"string"},"schema":{"x":"$b"}}'' ''{"x":"v"}''
       = Accepted
   \<and> run (exampleEnv lowerKeys rev) ''{"types":{"b":"$a","a":"string"},"schema":{"x":"$b"}}'' ''{"x":1}''
       = Rejected (ValidationError [Key ''x''] (Errorf ''expected string type but got %s'' [S ''number'']))
   \<and> run (exampleEnv lowerKeys rev)
         ''{"types":{"b":{"type":"array","values":"$a"},"a":"string"},"schema":{"x":"$b"}}'' ''{"x":["v"]}''
       = Accepted
   \<and> ParseSchema (exampleEnv lowerKeys id) ''{"types":{"b":"$a","a":"string"},"schema":{"x":"$b"}}''
       = Inl (Errorf ''cannot parse user-defined type %q: %w''
           [S ''b'', E (Errorf ''cannot find user-defined type %q'' [S ''a''])])\<close>
proof -
  have o: "\<forall>ks. set (mapOrder (exampleEnv lowerKeys rev) ks) = set ks
         \<and> distinct (mapOrder (exampleEnv lowerKeys rev) ks) = distinct ks"
    by (simp add: exampleEnv_def)
  have v1: "validUserType ''a''" by (simp add: eval)
  have v2: "validUserType ''b''" by (simp add: eval)
  have p1: \<open>ParseSchema (exampleEnv lowerKeys rev) ''{"types":{"b":"$a","a":"string"},"schema":{"x":"$b"}}''
       = Inr \<lparr>heap = [StringSchema None [],
                       MapSchema (Some [(''x'', UserTypeRef (UserTypeRef (Ptr 0) True) False)]) None None []],
              topLevel = Ptr 1,
              userTypes = [(''a'', UserTypeRef (Ptr 0) True),
                           (''b'', UserTypeRef (UserTypeRef (Ptr 0) True) False)]\<rparr>\<close>
    by (simp add: eval)
  have r1: \<open>run (exampleEnv lowerKeys rev) ''{"types":{"b":"$a","a":"string"},"schema":{"x":"$b"}}'' ''{"x":"v"}''
       = Accepted\<close>
    by (simp add: eval)
  have r2: \<open>run (exampleEnv lowerKeys rev) ''{"types":{"b":"$a","a":"string"},"schema":{"x":"$b"}}'' ''{"x":1}''
       = Rejected (ValidationError [Key ''x''] (Errorf ''expected string type but got %s'' [S ''number'']))\<close>
    by (simp add: eval)
  have r3: \<open>run (exampleEnv lowerKeys rev)
         ''{"types":{"b":{"type":"array","values":"$a"},"a":"string"},"schema":{"x":"$b"}}'' ''{"x":["v"]}''
       = Accepted\<close>
    by (simp add: eval)
  have p2: \<open>ParseSchema (exampleEnv lowerKeys id) ''{"types":{"b":"$a","a":"string"},"schema":{"x":"$b"}}''
       = Inl (Errorf ''cannot parse user-defined type %q: %w''
           [S ''b'', E (Errorf ''cannot find user-defined type %q'' [S ''a''])])\<close>
    by (simp add: eval)
  show ?thesis by (intro conjI o v1 v2 p1 r1 r2 r3 p2)
qed


section \<open>Compiling the same bytes twice\<close>

text \<open>
  Claim C1. The loop of \<^verbatim>\<open>ParseSchema\<close> over the \<^verbatim>\<open>"types"\<close> map and the
  loops over the entries of a map schema are \<^verbatim>\<open>range\<close> loops over a Go map, whose
  order of iteration changes from one run to the next; the order is the parameter
  \<^const>\<open>mapOrder\<close> of the model. Two orders, each a permutation of the keys, tell two
  compilations of the same bytes apart. The schema
  \<^verbatim>\<open>{"types":{"a":"string","b":"$a"},"schema":{"x":"$b"}}\<close> compiles and accepts
  \<^verbatim>\<open>{"x":"v"}\<close> when \<^verbatim>\<open>a\<close> is visited first, and does not compile when
  \<^verbatim>\<open>b\<close> is. The schema in which the entries \<^verbatim>\<open>x\<close> and \<^verbatim>\<open>y\<close> both
  constrain the user type \<^verbatim>\<open>$a\<close>, one with \<^verbatim>\<open>"choices"\<close> and one with
  \<^verbatim>\<open>"pattern"\<close>, write to the one string schema the references share: it does
  not compile when \<^verbatim>\<open>x\<close> is parsed first and compiles when \<^verbatim>\<open>y\<close> is.
\<close>

theorem compile_depends_on_map_order:
  \<open>(\<forall>ks. set (mapOrder (exampleEnv lowerKeys id) ks) = set ks
         \<and> distinct (mapOrder (exampleEnv lowerKeys id) ks) = distinct ks)
   \<and> (\<forall>ks. set (mapOrder (exampleEnv lowerKeys rev) ks) = set ks
         \<and> distinct (mapOrder (exampleEnv lowerKeys rev) ks) = distinct ks)
   \<and> (\<exists>s. ParseSchema (exampleEnv lowerKeys id)
               ''{"types":{"a":"string","b":"$a"},"schema":{"x":"$b"}}'' = Inr s)
   \<and> ParseSchema (exampleEnv lowerKeys rev)
               ''{"types":{"a":"string","b":"$a"},"schema":{"x":"$b"}}''
       = Inl (Errorf ''cannot parse user-defined type %q: %w''
           [S ''b'', E (Errorf ''cannot find user-defined type %q'' [S ''a''])])
   \<and> run (exampleEnv lowerKeys id) ''{"types":{"a":"string","b":"$a"},"schema":{"x":"$b"}}'' ''{"x":"v"}''
       = Accepted
   \<and> ParseSchema (exampleEnv lowerKeys id)
         ''{"types":{"a":"string"},"schema":{"x":{"type":"$a","choices":["foo"]},"y":{"type":"$a","pattern":"bar"}}}''
       = Inl (Errorf ''cannot use "choices" and "pattern" constraints in same schema'' [])
   \<and> (\<exists>s. ParseSchema (exampleEnv lowerKeys rev)
         ''{"types":{"a":"string"},"schema":{"x":{"type":"$a","choices":["foo"]},"y":{"type":"$a","pattern":"bar"}}}''
       = Inr s)
   \<and> run (exampleEnv lowerKeys rev)
         ''{"types":{"a":"string"},"schema":{"x":{"type":"$a","choices":["foo"]},"y":{"type":"$a","pattern":"bar"}}}''
         ''{"y":"foo"}''
       = Accepted\<close>
proof -
  have o1: "\<forall>ks. set (mapOrder (exampleEnv lowerKeys id) ks) = set ks
         \<and> distinct (mapOrder (exampleEnv lowerKeys id) ks) = distinct ks"
    by (simp add: exampleEnv_def)
  have o2: "\<forall>ks. set (mapOrder (exampleEnv lowerKeys rev) ks) = set ks
         \<and> distinct (mapOrder (exampleEnv lowerKeys rev) ks) = distinct ks"
    by (simp add: exampleEnv_def)
  have r1: \<open>run (exampleEnv lowerKeys id) ''{"types":{"a":"string","b":"$a"},"schema":{"x":"$b"}}'' ''{"x":"v"}''
       = Accepted\<close>
    by (simp add: eval)
  then have p1: \<open>\<exists>s. ParseSchema (exampleEnv lowerKeys id)
               ''{"types":{"a":"string","b":"$a"},"schema":{"x":"$b"}}'' = Inr s\<close>
    unfolding run_def by (simp split: sum.splits)
  have p2: \<open>ParseSchema (exampleEnv lowerKeys rev)
               ''{"types":{"a":"string","b":"$a"},"schema":{"x":"$b"}}''
       = Inl (Errorf ''cannot parse user-defined type %q: %w''
           [S ''b'', E (Errorf ''cannot find user-defined type %q'' [S ''a''])])\<close>
    by (simp add: eval)
  have p3: \<open>ParseSchema (exampleEnv lowerKeys id)
         ''{"types":{"a":"string"},"schema":{"x":{"type":"$a","choices":["foo"]},"y":{"type":"$a","pattern":"bar"}}}''
       = Inl (Errorf ''cannot use "choices" and "pattern" constraints in same schema'' [])\<close>
    by (simp add: eval)
  have r4: \<open>run (exampleEnv lowerKeys rev)
         ''{"types":{"a":"string"},"schema":{"x":{"type":"$a","choices":["foo"]},"y":{"type":"$a","pattern":"bar"}}}''
         ''{"y":"foo"}''
       = Accepted\<close>
    by (simp add: eval)
  then have p4: \<open>\<exists>s. ParseSchema (exampleEnv lowerKeys rev)
         ''{"types":{"a":"string"},"schema":{"x":{"type":"$a","choices":["foo"]},"y":{"type":"$a","pattern":"bar"}}}''
       = Inr s\<close>
    unfolding run_def by (simp split: sum.splits)
  show ?thesis by (intro conjI o1 o2 p1 p2 r1 p3 p4 r4)
qed

end
